theory Spec2Isabelle
  imports Main "HOL-Library.Sublist"
begin

section \<open>JavaScript strings and arrays\<close>

text \<open>
  A JavaScript string is modelled as a \<^typ>\<open>string\<close>, one \<^typ>\<open>char\<close> per
  code unit; the model covers code units below 256. JavaScript numbers that count
  things (frequencies, ranges, HTTP status codes) are naturals, which is exact below
  \<open>2 ^ 53\<close>.
\<close>

text \<open>\<^verbatim>\<open>s.startsWith(p)\<close> and \<^verbatim>\<open>s.includes(sub)\<close>.\<close>

definition startsWith :: "string \<Rightarrow> string \<Rightarrow> bool" where
  "startsWith s p = prefix p s"

fun str_includes :: "string \<Rightarrow> string \<Rightarrow> bool" where
  "str_includes [] sub = (sub = [])"
| "str_includes (c # cs) sub = (prefix sub (c # cs) \<or> str_includes cs sub)"

text \<open>
  \<^verbatim>\<open>s.split(sep)\<close> for a non-empty separator: the pieces between the
  non-overlapping occurrences of \<open>sep\<close>, found from the left. \<open>k\<close> counts the
  characters of the current occurrence still to be skipped, \<open>acc\<close> is the current
  piece, reversed.
\<close>

fun split_aux :: "string \<Rightarrow> nat \<Rightarrow> string \<Rightarrow> string \<Rightarrow> string list" where
  "split_aux sep k acc [] = [rev acc]"
| "split_aux sep k acc (c # cs) =
     (if 0 < k then split_aux sep (k - 1) acc cs
      else if prefix sep (c # cs) then rev acc # split_aux sep (length sep - 1) [] cs
      else split_aux sep 0 (c # acc) cs)"

definition split :: "string \<Rightarrow> string \<Rightarrow> string list" where
  "split s sep = split_aux sep 0 [] s"

text \<open>\<^verbatim>\<open>s.split(sep)[0]\<close>; the array returned by \<open>split\<close> is never empty.\<close>

definition split0 :: "string \<Rightarrow> string \<Rightarrow> string" where
  "split0 s sep = (case split s sep of [] \<Rightarrow> [] | x # _ \<Rightarrow> x)"

text \<open>
  White space as \<^verbatim>\<open>String.prototype.trim\<close> and the numeric conversions see it,
  among the code units below 256: TAB, LF, VT, FF, CR, SP and NBSP.
\<close>

definition isWhiteSpace :: "char \<Rightarrow> bool" where
  "isWhiteSpace c = (of_char c \<in> {9, 10, 11, 12, 13, 32, 160 :: nat})"

definition trimStart :: "string \<Rightarrow> string" where
  "trimStart s = dropWhile isWhiteSpace s"

definition trim :: "string \<Rightarrow> string" where
  "trim s = rev (dropWhile isWhiteSpace (rev (dropWhile isWhiteSpace s)))"

section \<open>Helper.comparePopulation\<close>

record population_diff =
  joined :: "string list"
  left :: "string list"

text \<open>
  \<^verbatim>\<open>new Set(list)\<close> is read only through \<^verbatim>\<open>has\<close>, so it is the set of the
  list's elements. \<^verbatim>\<open>filter\<close> builds a new array; neither argument is written to,
  so the function is a pure function of the two lists.
\<close>

definition comparePopulation :: "string list \<Rightarrow> string list \<Rightarrow> population_diff" where
  "comparePopulation oldList newList =
     (let oldSet = set oldList;
          newSet = set newList;
          joined = filter (\<lambda>ign. \<not> (ign \<in> oldSet)) newList;
          left = filter (\<lambda>ign. \<not> (ign \<in> newSet)) oldList
      in \<lparr>joined = joined, left = left\<rparr>)"

section \<open>Number(string) and String.prototype.toLowerCase\<close>

definition isDecimalDigit :: "char \<Rightarrow> bool" where
  "isDecimalDigit c = (c \<in> set ''0123456789'')"

definition isHexDigit :: "char \<Rightarrow> bool" where
  "isHexDigit c = (c \<in> set ''0123456789abcdefABCDEF'')"

definition digitValue :: "char \<Rightarrow> nat" where
  "digitValue c =
     (if c \<in> set ''0123456789'' then of_char c - 48
      else if c \<in> set ''abcdef'' then of_char c - 87
      else of_char c - 55)"

definition digitsValue :: "nat \<Rightarrow> string \<Rightarrow> nat" where
  "digitsValue radix ds = foldl (\<lambda>a c. a * radix + digitValue c) 0 ds"

text \<open>
  \<^verbatim>\<open>Number(s)\<close> is only ever tested for truthiness, so the model keeps the three
  classes of its result: \<open>NaN\<close>, a zero, or a non-zero number (\<open>Infinity\<close> included).
  The string is trimmed; the empty string converts to 0; a string that is no numeric
  literal converts to \<open>NaN\<close>.
\<close>

datatype number_class = IsNaN | IsZero | NonZero

text \<open>The exponent part after the \<open>e\<close>: an optional sign and at least one digit.\<close>

definition ExponentPart :: "string \<Rightarrow> int option" where
  "ExponentPart x =
     (let neg = (case x of [] \<Rightarrow> False | c # _ \<Rightarrow> c = CHR ''-'');
          ds = (case x of [] \<Rightarrow> []
                | c # r \<Rightarrow> if c = CHR ''+'' \<or> c = CHR ''-'' then r else x)
      in if ds = [] \<or> \<not> list_all isDecimalDigit ds then None
         else Some (if neg then - int (digitsValue 10 ds) else int (digitsValue 10 ds)))"

text \<open>
  An unsigned decimal literal: \<open>digits\<close>, \<open>digits.\<close>, \<open>digits.digits\<close> or
  \<open>.digits\<close>, each with an optional exponent part. The result is the digits before
  the point, the digits after it, and the exponent.
\<close>

definition StrUnsignedDecimalLiteral :: "string \<Rightarrow> (string \<times> string \<times> int) option" where
  "StrUnsignedDecimalLiteral u =
     (let notE = (\<lambda>c. c \<noteq> CHR ''e'' \<and> c \<noteq> CHR ''E'');
          mant = takeWhile notE u;
          rest = dropWhile notE u;
          ip = takeWhile isDecimalDigit mant;
          fp = (case dropWhile isDecimalDigit mant of
                  [] \<Rightarrow> Some []
                | c # f \<Rightarrow> if c = CHR ''.'' \<and> list_all isDecimalDigit f then Some f else None);
          ex = (case rest of [] \<Rightarrow> Some 0 | _ # x \<Rightarrow> ExponentPart x)
      in case (fp, ex) of
           (Some f, Some e) \<Rightarrow> if ip = [] \<and> f = [] then None else Some (ip, f, e)
         | _ \<Rightarrow> None)"

text \<open>
  A decimal literal with digits \<open>ip.fp\<close> and exponent \<open>e\<close> denotes
  \<open>m * 10 ^ (e - length fp)\<close>, \<open>m\<close> the number written \<open>ip fp\<close>. It converts to a
  zero when \<open>m = 0\<close>, and when the value is so small that the nearest double is 0:
  at most \<open>2 ^ -1075\<close>, half the least positive double (ties go to the even 0).
\<close>

definition decimalIsZero :: "string \<Rightarrow> string \<Rightarrow> int \<Rightarrow> bool" where
  "decimalIsZero ip fp e =
     (let m = digitsValue 10 (ip @ fp);
          e10 = e - int (length fp)
      in if m = 0 then True
         else if 0 \<le> e10 then False
         else int m * 2 ^ 1075 \<le> 10 ^ nat (- e10))"

definition nonDecimalClass :: "(char \<Rightarrow> bool) \<Rightarrow> string \<Rightarrow> number_class" where
  "nonDecimalClass isDigit ds =
     (if ds = [] \<or> \<not> list_all isDigit ds then IsNaN
      else if list_all (\<lambda>c. c = CHR ''0'') ds then IsZero else NonZero)"

definition Number_class :: "string \<Rightarrow> number_class" where
  "Number_class s =
     (let t = trim s in
      if t = [] then IsZero
      else if prefix ''0x'' t \<or> prefix ''0X'' t then nonDecimalClass isHexDigit (drop 2 t)
      else if prefix ''0o'' t \<or> prefix ''0O'' t
        then nonDecimalClass (\<lambda>c. c \<in> set ''01234567'') (drop 2 t)
      else if prefix ''0b'' t \<or> prefix ''0B'' t
        then nonDecimalClass (\<lambda>c. c \<in> set ''01'') (drop 2 t)
      else
        let u = (case t of [] \<Rightarrow> []
                 | c # r \<Rightarrow> if c = CHR ''+'' \<or> c = CHR ''-'' then r else t)
        in if u = ''Infinity'' then NonZero
           else case StrUnsignedDecimalLiteral u of
                  None \<Rightarrow> IsNaN
                | Some (ip, fp, e) \<Rightarrow> if decimalIsZero ip fp e then IsZero else NonZero)"

text \<open>\<^verbatim>\<open>if (Number(s))\<close>: \<open>NaN\<close> and the zeros are falsy.\<close>

definition Number_truthy :: "string \<Rightarrow> bool" where
  "Number_truthy s = (Number_class s = NonZero)"

text \<open>
  \<^verbatim>\<open>toLowerCase\<close> on code units below 256: \<open>A\<close>..\<open>Z\<close> and the capital letters
  of the Latin-1 supplement (192 to 222, the multiplication sign 215 apart) move up
  by 32, which for these code units is setting the bit of weight 32.
\<close>

definition toLowerCase_char :: "char \<Rightarrow> char" where
  "toLowerCase_char c =
     (let n = (of_char c :: nat) in
      if (65 \<le> n \<and> n \<le> 90) \<or> (192 \<le> n \<and> n \<le> 222 \<and> n \<noteq> 215)
      then (case c of Char b0 b1 b2 b3 b4 b5 b6 b7 \<Rightarrow> Char b0 b1 b2 b3 b4 True b6 b7)
      else c)"

definition toLowerCase :: "string \<Rightarrow> string" where
  "toLowerCase s = map toLowerCase_char s"

section \<open>ConsoleMessagesHandler.getKill\<close>

text \<open>
  Modelled from the spec: the enum \<^verbatim>\<open>PlayerKillType\<close> of the constants module,
  which is not among the sources. The spec gives the categories player, NPC and
  animal/other; \<^verbatim>\<open>getKill\<close> itself names \<open>Npc\<close> and \<open>Player\<close>.
\<close>

datatype PlayerKillType = Player | Npc | Other

text \<open>
  An entry of the static table \<^verbatim>\<open>playerKillData\<close>. The table is in the constants
  module, which is not among the sources, so it is a parameter of \<open>getKill\<close>.
\<close>

record kill_entry =
  entry_id :: string
  entry_name :: string
  entry_type :: PlayerKillType

record kill_participant =
  pk_id :: string
  pk_name :: string
  pk_type :: PlayerKillType

definition getKill :: "kill_entry list \<Rightarrow> string \<Rightarrow> kill_participant" where
  "getKill playerKillData ign =
     (case find (\<lambda>e. entry_id e = toLowerCase ign) playerKillData of
        Some data \<Rightarrow> \<lparr>pk_id = ign, pk_name = entry_name data, pk_type = entry_type data\<rparr>
      | None \<Rightarrow>
          if Number_truthy ign then \<lparr>pk_id = ign, pk_name = ''Scientist'', pk_type = Npc\<rparr>
          else \<lparr>pk_id = ign, pk_name = ign, pk_type = Player\<rparr>)"

text \<open>
  \<^verbatim>\<open>parseInt(s)\<close> with no radix: leading white space is skipped, a sign is read,
  a prefix \<open>0x\<close> selects radix 16, and the longest run of digits is the value;
  \<open>None\<close> is \<open>NaN\<close>.
\<close>

definition parseInt :: "string \<Rightarrow> int option" where
  "parseInt s =
     (let t = trimStart s;
          neg = (case t of [] \<Rightarrow> False | c # _ \<Rightarrow> c = CHR ''-'');
          u = (case t of [] \<Rightarrow> []
               | c # r \<Rightarrow> if c = CHR ''+'' \<or> c = CHR ''-'' then r else t);
          hex = (prefix ''0x'' u \<or> prefix ''0X'' u);
          ds = (if hex then takeWhile isHexDigit (drop 2 u) else takeWhile isDecimalDigit u);
          v = int (digitsValue (if hex then 16 else 10) ds)
      in if ds = [] then None else Some (if neg then - v else v))"

section \<open>Servers, in-flight commands, events\<close>

text \<open>
  The fields of \<^verbatim>\<open>RustServer\<close> that the handlers read or write. The interval
  handles, the intents and the caller's state bag play no part in them.
\<close>

record RustServer =
  server_identifier :: string
  serverId :: "nat \<times> nat"
  region :: string
  flags :: "string list"
  status :: string
  players :: "string list"
  frequencies :: "nat list"
  silent :: bool

text \<open>\<^verbatim>\<open>CommandResponse\<close>: \<^verbatim>\<open>{ ok, response?, error? }\<close>.\<close>

record CommandResponse =
  ok :: bool
  response :: "string option"
  error :: "string option"

text \<open>
  An in-flight command. \<open>resolve\<close> is the promise that the record's resolve callback
  settles, \<open>timeout\<close> the handle of its timer, once one is attached.
\<close>

record CommandRequest =
  req_identifier :: string
  req_command :: string
  timestamp :: "string option"
  resolve :: nat
  timeout :: "nat option"

text \<open>
  The events of \<^verbatim>\<open>RCEEvent\<close> that the handlers emit, each with its payload
  (the server of the payload is kept beside the event, by its identifier). Coordinates
  are what \<^verbatim>\<open>parseFloat\<close> returns, of a type \<open>'f\<close> left open.
\<close>

datatype 'f RCEEvent =
    Message string
  | ExecutingCommand string
  | VendingMachineName string string string
  | QuickChat "string option" string string
  | PlayerSuicide string
  | PlayerRespawned string string
  | CustomZoneCreated string
  | CustomZoneRemoved string
  | PlayerRoleAdd "string option" string string
  | PlayerRoleRemove "string option" string string
  | ItemSpawn string string "int option"
  | NoteEdit string string string
  | TeamCreate "int option" string
  | TeamJoin "int option" string string
  | TeamInvite "int option" string string
  | TeamLeave "int option" string string
  | TeamInviteCancel "int option" string string
  | TeamPromoted "int option" string string
  | KitSpawn string string
  | KitGive string string string
  | SpecialEventSet string
  | EventStart string bool
  | PlayerKill kill_participant kill_participant
  | FrequencyLost nat
  | FrequencyGained nat "'f list" nat

text \<open>
  A pending \<^verbatim>\<open>setTimeout\<close>. The only callback that the modelled code schedules is
  the command timeout, which closes over the identifier, the command text and the
  promise of the dispatch that scheduled it.
\<close>

datatype timer_action = CommandTimeout string string nat

record timer =
  timer_id :: nat
  due :: nat
  action :: timer_action

text \<open>
  The state that the handlers share: the server map of the manager, the registry of
  \<^verbatim>\<open>CommandHandler\<close>, the promises handed out by \<^verbatim>\<open>command\<close> (a promise is
  its index; \<open>None\<close> is pending), the pending timers with the clock in milliseconds,
  and the events emitted so far. The calls of the logger and of \<^verbatim>\<open>ServerUtils.error\<close>
  (which is not among the sources) report and do nothing else here; they are left out.
\<close>

record 'f world =
  servers :: "string \<rightharpoonup> RustServer"
  commands :: "CommandRequest list"
  promises :: "CommandResponse option list"
  timers :: "timer list"
  next_timer :: nat
  clock :: nat
  emitted :: "(string \<times> 'f RCEEvent) list"

definition emit :: "string \<Rightarrow> 'f RCEEvent \<Rightarrow> 'f world \<Rightarrow> 'f world" where
  "emit ident ev w = w\<lparr>emitted := emitted w @ [(ident, ev)]\<rparr>"

definition emit_all :: "string \<Rightarrow> 'f RCEEvent list \<Rightarrow> 'f world \<Rightarrow> 'f world" where
  "emit_all ident evs w = foldl (\<lambda>w ev. emit ident ev w) w evs"

text \<open>\<^verbatim>\<open>ServerManager.update\<close> and \<^verbatim>\<open>ServerManager.get\<close>.\<close>

definition update :: "RustServer \<Rightarrow> 'f world \<Rightarrow> 'f world" where
  "update server w = w\<lparr>servers := (servers w)(server_identifier server \<mapsto> server)\<rparr>"

definition get :: "'f world \<Rightarrow> string \<Rightarrow> RustServer option" where
  "get w ident = servers w ident"

text \<open>
  Settling a promise: the first \<^verbatim>\<open>resolve\<close> decides, later ones change nothing.
\<close>

definition settle :: "nat \<Rightarrow> CommandResponse \<Rightarrow> 'f world \<Rightarrow> 'f world" where
  "settle p v w =
     (if p < length (promises w) \<and> promises w ! p = None
      then w\<lparr>promises := (promises w)[p := Some v]\<rparr> else w)"

text \<open>\<^verbatim>\<open>clearTimeout(handle)\<close>; an undefined handle clears nothing.\<close>

definition clearTimeout :: "nat option \<Rightarrow> 'f world \<Rightarrow> 'f world" where
  "clearTimeout h w =
     (case h of None \<Rightarrow> w
      | Some i \<Rightarrow> w\<lparr>timers := filter (\<lambda>tm. timer_id tm \<noteq> i) (timers w)\<rparr>)"

text \<open>\<^verbatim>\<open>setTimeout(callback, delay)\<close> returns the handle of the new timer.\<close>

definition setTimeout :: "timer_action \<Rightarrow> nat \<Rightarrow> 'f world \<Rightarrow> nat \<times> 'f world" where
  "setTimeout a delay w =
     (next_timer w,
      w\<lparr>timers := timers w @ [\<lparr>timer_id = next_timer w, due = clock w + delay, action = a\<rparr>],
        next_timer := next_timer w + 1\<rparr>)"

section \<open>CommandHandler\<close>

text \<open>
  Modelled from the spec: the class \<^verbatim>\<open>CommandHandler\<close>, which is not among the
  sources. The spec describes a registry keyed by session identifier and exact command
  text: \<open>add\<close> registers a record and does nothing when one with the same key exists;
  \<open>get\<close> is the exact lookup; \<open>getQueued\<close> returns the record of the session whose
  stamped timestamp equals the observed one; \<open>remove\<close> is idempotent (and here does
  nothing when handed the undefined result of a failed \<open>get\<close>).
\<close>

definition same_key :: "string \<Rightarrow> string \<Rightarrow> CommandRequest \<Rightarrow> bool" where
  "same_key ident cmd c = (req_identifier c = ident \<and> req_command c = cmd)"

definition CommandHandler_get :: "CommandRequest list \<Rightarrow> string \<Rightarrow> string \<Rightarrow> CommandRequest option" where
  "CommandHandler_get cmds ident cmd = find (same_key ident cmd) cmds"

definition CommandHandler_add :: "CommandRequest list \<Rightarrow> CommandRequest \<Rightarrow> CommandRequest list" where
  "CommandHandler_add cmds r =
     (if CommandHandler_get cmds (req_identifier r) (req_command r) = None then cmds @ [r]
      else cmds)"

definition CommandHandler_getQueued :: "CommandRequest list \<Rightarrow> string \<Rightarrow> string \<Rightarrow> CommandRequest option" where
  "CommandHandler_getQueued cmds ident ts =
     find (\<lambda>c. req_identifier c = ident \<and> timestamp c = Some ts) cmds"

definition CommandHandler_remove :: "CommandRequest list \<Rightarrow> CommandRequest option \<Rightarrow> CommandRequest list" where
  "CommandHandler_remove cmds r =
     (case r of None \<Rightarrow> cmds
      | Some c \<Rightarrow> filter (\<lambda>d. \<not> same_key (req_identifier c) (req_command c) d) cmds)"

text \<open>
  \<^verbatim>\<open>command.timestamp = date\<close> on a record obtained from \<open>get\<close>: the record is the
  object held by the registry, so the registry sees the assignment.
\<close>

definition set_timestamp :: "CommandRequest \<Rightarrow> string \<Rightarrow> CommandRequest list \<Rightarrow> CommandRequest list" where
  "set_timestamp c date cmds =
     map (\<lambda>d. if same_key (req_identifier c) (req_command c) d
               then d\<lparr>timestamp := Some date\<rparr> else d) cmds"

text \<open>\<^verbatim>\<open>cmd.timeout = handle\<close>, likewise.\<close>

definition set_timeout :: "CommandRequest \<Rightarrow> nat \<Rightarrow> CommandRequest list \<Rightarrow> CommandRequest list" where
  "set_timeout c h cmds =
     map (\<lambda>d. if same_key (req_identifier c) (req_command c) d
               then d\<lparr>timeout := Some h\<rparr> else d) cmds"

section \<open>ConsoleMessagesHandler.handle\<close>

text \<open>
  The patterns of \<^verbatim>\<open>RegularExpressions\<close> are in the constants module, which is not
  among the sources, so they are parameters: each field is what
  \<^verbatim>\<open>s.match(pattern)\<close> yields, \<open>None\<close> for no match and otherwise the capture
  groups that the handler reads, in the order of their numbers.
\<close>

record RegularExpressions =
  re_Log :: "string \<Rightarrow> (string \<times> string) option"
  re_CommandExecuting :: "string \<Rightarrow> string option"
  re_VendingMachineName :: "string \<Rightarrow> (string \<times> string \<times> string) option"
  re_QuickChat :: "string \<Rightarrow> (string \<times> string \<times> string \<times> string) option"
  re_CustomZoneCreated :: "string \<Rightarrow> string option"
  re_CustomZoneRemoved :: "string \<Rightarrow> string option"
  re_PlayerRoleAdd :: "string \<Rightarrow> (string \<times> string \<times> string) option"
  re_PlayerRoleRemove :: "string \<Rightarrow> (string \<times> string \<times> string) option"
  re_ItemSpawn :: "string \<Rightarrow> (string \<times> string \<times> string) option"
  re_NoteEdit :: "string \<Rightarrow> (string \<times> string \<times> string) option"
  re_TeamCreate :: "string \<Rightarrow> (string \<times> string) option"
  re_TeamJoin :: "string \<Rightarrow> (string \<times> string \<times> string) option"
  re_TeamInvite :: "string \<Rightarrow> (string \<times> string \<times> string) option"
  re_TeamLeave :: "string \<Rightarrow> (string \<times> string \<times> string) option"
  re_TeamInviteCancel :: "string \<Rightarrow> (string \<times> string \<times> string) option"
  re_TeamPromoted :: "string \<Rightarrow> (string \<times> string \<times> string) option"
  re_KitSpawn :: "string \<Rightarrow> (string \<times> string) option"
  re_KitGive :: "string \<Rightarrow> (string \<times> string \<times> string) option"
  re_SpecialEventSet :: "string \<Rightarrow> string option"

text \<open>The table \<^verbatim>\<open>EVENTS\<close>, in the order of \<^verbatim>\<open>Object.entries\<close>: key, name, special.\<close>

definition EVENTS :: "(string \<times> string \<times> bool) list" where
  "EVENTS =
     [(''event_airdrop'', ''Airdrop'', False),
      (''event_cargoship'', ''Cargo Ship'', False),
      (''event_cargoheli'', ''Chinook'', False),
      (''event_helicopter'', ''Patrol Helicopter'', False),
      (''event_halloween'', ''Halloween'', True),
      (''event_xmas'', ''Christmas'', True),
      (''event_easter'', ''Easter'', True)]"

text \<open>The table \<^verbatim>\<open>types\<close> of the quick-chat block.\<close>

definition quickChatTypes :: "(string \<times> string) list" where
  "quickChatTypes =
     [(''[CHAT TEAM]'', ''team''), (''[CHAT SERVER]'', ''server''), (''[CHAT LOCAL]'', ''local'')]"

text \<open>A JavaScript string in a condition: undefined, null and the empty string are falsy.\<close>

definition truthy :: "string option \<Rightarrow> bool" where
  "truthy x = (case x of None \<Rightarrow> False | Some s \<Rightarrow> s \<noteq> [])"

text \<open>
  The blocks of \<open>handle\<close> from \<^verbatim>\<open>VENDING_MACHINE_NAME\<close> to \<^verbatim>\<open>PLAYER_KILL\<close>:
  the events that one log line emits, in the order of the blocks.
\<close>

definition decode_chat :: "RegularExpressions \<Rightarrow> string \<Rightarrow> 'f RCEEvent list" where
  "decode_chat rx log =
     (case re_VendingMachineName rx log of None \<Rightarrow> []
      | Some (ign, oldName, newName) \<Rightarrow> [VendingMachineName ign oldName newName])
     @ (case re_QuickChat rx log of None \<Rightarrow> []
        | Some (g1, g2, g3, g4) \<Rightarrow> [QuickChat (map_of quickChatTypes g1) g3 g4])
     @ (if str_includes log ''was suicide by Suicide''
        then [PlayerSuicide (split0 log '' was suicide by Suicide'')] else [])
     @ (if str_includes log ''has entered the game''
        then [PlayerRespawned (split0 log '' ['')
                (if str_includes log ''[xboxone]'' then ''XBL'' else ''PS'')]
        else [])
     @ (case re_CustomZoneCreated rx log of None \<Rightarrow> [] | Some zone \<Rightarrow> [CustomZoneCreated zone])
     @ (case re_CustomZoneRemoved rx log of None \<Rightarrow> [] | Some zone \<Rightarrow> [CustomZoneRemoved zone])"

text \<open>The two characters of the literal \<^verbatim>\<open>"\\n"\<close> of the note-edit block: a backslash and \<open>n\<close>.\<close>

definition backslash_n :: string where
  "backslash_n = [CHR 0x5C, CHR ''n'']"

definition decode_roles :: "RegularExpressions \<Rightarrow> string \<Rightarrow> 'f RCEEvent list" where
  "decode_roles rx log =
     (if str_includes log ''Added''
      then (case re_PlayerRoleAdd rx log of None \<Rightarrow> []
            | Some (g1, ign, role) \<Rightarrow>
                [PlayerRoleAdd (if g1 = ''SERVER'' then None else Some g1) ign role])
      else [])
     @ (if str_includes log ''Removed''
        then (case re_PlayerRoleRemove rx log of None \<Rightarrow> []
              | Some (g1, ign, role) \<Rightarrow>
                  [PlayerRoleRemove (if g1 = ''SERVER'' then None else Some g1) ign role])
        else [])
     @ (case re_ItemSpawn rx log of None \<Rightarrow> []
        | Some (ign, quantity, item) \<Rightarrow> [ItemSpawn ign item (parseInt quantity)])
     @ (case re_NoteEdit rx log of None \<Rightarrow> []
        | Some (ign, g2, g3) \<Rightarrow>
            (let oldContent = split0 (trim g2) backslash_n;
                 newContent = split0 (trim g3) backslash_n
             in if 0 < length newContent \<and> oldContent \<noteq> newContent
                then [NoteEdit ign oldContent newContent] else []))"

definition decode_teams :: "RegularExpressions \<Rightarrow> string \<Rightarrow> 'f RCEEvent list" where
  "decode_teams rx log =
     (case re_TeamCreate rx log of None \<Rightarrow> []
      | Some (owner, g2) \<Rightarrow> [TeamCreate (parseInt g2) owner])
     @ (case re_TeamJoin rx log of None \<Rightarrow> []
        | Some (ign, owner, g3) \<Rightarrow> [TeamJoin (parseInt g3) owner ign])
     @ (case re_TeamInvite rx log of None \<Rightarrow> []
        | Some (owner, ign, g3) \<Rightarrow> [TeamInvite (parseInt g3) owner ign])
     @ (case re_TeamLeave rx log of None \<Rightarrow> []
        | Some (ign, owner, g3) \<Rightarrow> [TeamLeave (parseInt g3) owner ign])
     @ (case re_TeamInviteCancel rx log of None \<Rightarrow> []
        | Some (ign, owner, g3) \<Rightarrow> [TeamInviteCancel (parseInt g3) owner ign])
     @ (case re_TeamPromoted rx log of None \<Rightarrow> []
        | Some (oldOwner, newOwner, g3) \<Rightarrow> [TeamPromoted (parseInt g3) oldOwner newOwner])"

definition decode_kits :: "RegularExpressions \<Rightarrow> string \<Rightarrow> 'f RCEEvent list" where
  "decode_kits rx log =
     (case re_KitSpawn rx log of None \<Rightarrow> [] | Some (ign, kit) \<Rightarrow> [KitSpawn ign kit])
     @ (case re_KitGive rx log of None \<Rightarrow> []
        | Some (admin, ign, kit) \<Rightarrow> [KitGive ign admin kit])
     @ (case re_SpecialEventSet rx log of None \<Rightarrow> [] | Some ev \<Rightarrow> [SpecialEventSet ev])"

text \<open>
  \<^verbatim>\<open>EVENT_START\<close>: the loop over the entries of \<open>EVENTS\<close> has no \<open>break\<close>; each
  entry whose key the line includes emits its event.
\<close>

definition decode_event_start :: "string \<Rightarrow> 'f RCEEvent list" where
  "decode_event_start log =
     (if startsWith log ''[event]''
      then concat (map (\<lambda>(key, name, special).
                          if str_includes log key then [EventStart name special] else [])
                       EVENTS)
      else [])"

text \<open>
  \<^verbatim>\<open>PLAYER_KILL\<close>: the first two pieces of the split are the victim and the killer.
  When the line includes the separator the split has at least two pieces; the last
  case is there for totality only.
\<close>

definition decode_player_kill :: "kill_entry list \<Rightarrow> string \<Rightarrow> 'f RCEEvent list" where
  "decode_player_kill playerKillData log =
     (if str_includes log '' was killed by ''
      then (case map trim (split log '' was killed by '') of
              victim # killer # _ \<Rightarrow>
                [PlayerKill (getKill playerKillData victim) (getKill playerKillData killer)]
            | _ \<Rightarrow> [])
      else [])"

definition decode :: "RegularExpressions \<Rightarrow> kill_entry list \<Rightarrow> string \<Rightarrow> 'f RCEEvent list" where
  "decode rx playerKillData log =
     decode_chat rx log @ decode_roles rx log @ decode_teams rx log @ decode_kits rx log
     @ decode_event_start log @ decode_player_kill playerKillData log"

text \<open>
  The three calls that end an in-flight command in \<open>handle\<close>:
  \<^verbatim>\<open>command.resolve({ ok: true, response: log })\<close>,
  \<^verbatim>\<open>clearTimeout(command.timeout)\<close> and \<^verbatim>\<open>CommandHandler.remove(command)\<close>.
\<close>

definition resolve_command :: "CommandRequest \<Rightarrow> string \<Rightarrow> 'f world \<Rightarrow> 'f world" where
  "resolve_command command log w =
     (let w1 = settle (resolve command) \<lparr>ok = True, response = Some log, error = None\<rparr> w;
          w2 = clearTimeout (timeout command) w1
      in w2\<lparr>commands := CommandHandler_remove (commands w2) (Some command)\<rparr>)"

text \<open>
  \<^verbatim>\<open>COMMAND_EXECUTING\<close>. The second component is \<open>Some cmd\<close> when the line stamps
  the in-flight command \<open>cmd\<close>; the callback then returns, and \<open>cmd\<close> is the new
  \<open>currentCommand\<close>.
\<close>

definition command_executing ::
  "RegularExpressions \<Rightarrow> string \<Rightarrow> string \<Rightarrow> string \<Rightarrow> 'f world \<Rightarrow> 'f world \<times> string option" where
  "command_executing rx ident date log w =
     (case re_CommandExecuting rx log of
        None \<Rightarrow> (w, None)
      | Some cmd \<Rightarrow>
          (let w1 = emit ident (ExecutingCommand cmd) w in
           case CommandHandler_get (commands w1) ident cmd of
             None \<Rightarrow> (w1, None)
           | Some command \<Rightarrow>
               if \<not> truthy (timestamp command)
               then (w1\<lparr>commands :=
                         CommandHandler_add (set_timestamp command date (commands w1))
                           (command\<lparr>timestamp := Some date\<rparr>)\<rparr>,
                     Some cmd)
               else (w1, None)))"

text \<open>The \<^verbatim>\<open>else if (currentCommand)\<close> branch of the response check.\<close>

definition command_response_other ::
  "string \<Rightarrow> string \<Rightarrow> 'f world \<times> string option \<Rightarrow> 'f world \<times> string option" where
  "command_response_other ident log st =
     (case st of (w, currentCommand) \<Rightarrow>
        (case currentCommand of
           None \<Rightarrow> (w, currentCommand)
         | Some cur \<Rightarrow>
             if cur = [] then (w, currentCommand)
             else (case CommandHandler_get (commands w) ident cur of
                     None \<Rightarrow> (w, currentCommand)
                   | Some command \<Rightarrow> (resolve_command command log w, None))))"

text \<open>\<^verbatim>\<open>Check for Command Response\<close>.\<close>

definition command_response ::
  "string \<Rightarrow> string \<Rightarrow> string \<Rightarrow> 'f world \<times> string option \<Rightarrow> 'f world \<times> string option" where
  "command_response ident date log st =
     (case st of (w, currentCommand) \<Rightarrow>
        (case CommandHandler_getQueued (commands w) ident date of
           None \<Rightarrow> command_response_other ident log st
         | Some command \<Rightarrow>
             if \<not> startsWith log ''[ SAVE ]''
             then (resolve_command command log w, currentCommand)
             else command_response_other ident log st))"

text \<open>
  The body of the \<^verbatim>\<open>forEach\<close> callback for a line whose trimmed content \<open>log\<close> is
  not empty, and the callback itself. The state of the loop is the world and
  \<open>currentCommand\<close>.
\<close>

definition handle_log ::
  "RegularExpressions \<Rightarrow> kill_entry list \<Rightarrow> string \<Rightarrow> string \<Rightarrow> string
     \<Rightarrow> 'f world \<times> string option \<Rightarrow> 'f world \<times> string option" where
  "handle_log rx playerKillData ident date log st =
     (case st of (w, currentCommand) \<Rightarrow>
        (case command_executing rx ident date log (emit ident (Message log) w) of
           (w1, Some cmd) \<Rightarrow> (w1, Some cmd)
         | (w1, None) \<Rightarrow>
             (case command_response ident date log (w1, currentCommand) of
                (w2, cur) \<Rightarrow> (emit_all ident (decode rx playerKillData log) w2, cur))))"

definition handle_data ::
  "RegularExpressions \<Rightarrow> kill_entry list \<Rightarrow> string
     \<Rightarrow> 'f world \<times> string option \<Rightarrow> string \<Rightarrow> 'f world \<times> string option" where
  "handle_data rx playerKillData ident st data =
     (case re_Log rx data of
        None \<Rightarrow> st
      | Some (date, content) \<Rightarrow>
          (let log = trim content in
           if log = [] then st else handle_log rx playerKillData ident date log st))"

text \<open>
  \<open>handle\<close>: \<open>message\<close> is the optional text of the batch, \<open>server\<close> the server
  object of the session. The result is the server object and the world after the call.
\<close>

definition handle ::
  "RegularExpressions \<Rightarrow> kill_entry list \<Rightarrow> string option \<Rightarrow> RustServer \<Rightarrow> 'f world
     \<Rightarrow> RustServer \<times> 'f world" where
  "handle rx playerKillData message server w =
     (let messageArray =
            (case message of None \<Rightarrow> []
             | Some m \<Rightarrow> filter (\<lambda>e. e \<noteq> []) (split m [CHR 0x0A]))
      in if \<not> (''INIT_LOGS'' \<in> set (flags server))
         then (let server' = server\<lparr>flags := flags server @ [''INIT_LOGS'']\<rparr>
               in (server', update server' w))
         else (server,
               fst (foldl (handle_data rx playerKillData (server_identifier server))
                      (w, None) messageArray)))"

section \<open>ServerManager.command\<close>

text \<open>
  What the awaited calls of \<open>command\<close> can produce. \<^verbatim>\<open>fetchWithRetry\<close> throws (with
  a message) or returns a response, whose \<^verbatim>\<open>json()\<close> throws or returns the parsed
  body; of the body only the truthiness of \<^verbatim>\<open>data?.data?.sendConsoleMessage?.ok\<close>
  is read.
\<close>

datatype json_outcome = JsonThrows string | JsonValue bool

record Response =
  resp_ok :: bool
  resp_status :: nat
  resp_statusText :: string
  resp_json :: json_outcome

datatype fetch_outcome = FetchThrows string | FetchReturns Response

text \<open>A natural number in a template literal: its decimal digits.\<close>

fun string_of_nat :: "nat \<Rightarrow> string" where
  "string_of_nat n =
     (if n < 10 then [''0123456789'' ! n]
      else string_of_nat (n div 10) @ [''0123456789'' ! (n mod 10)])"

definition failed :: "string \<Rightarrow> CommandResponse" where
  "failed reason = \<lparr>ok = False, response = None, error = Some reason\<rparr>"

text \<open>\<^verbatim>\<open>{ ok: true, response: undefined }\<close>, the result of a command that timed out.\<close>

definition timeout_response :: CommandResponse where
  "timeout_response = \<lparr>ok = True, response = None, error = None\<rparr>"

definition http_reason :: "Response \<Rightarrow> string" where
  "http_reason r = ''HTTP '' @ string_of_nat (resp_status r) @ '' '' @ resp_statusText r"

text \<open>\<^verbatim>\<open>CommandHandler.remove(CommandHandler.get(identifier, command))\<close>.\<close>

definition remove_by_key :: "string \<Rightarrow> string \<Rightarrow> 'f world \<Rightarrow> 'f world" where
  "remove_by_key ident command w =
     w\<lparr>commands := CommandHandler_remove (commands w) (CommandHandler_get (commands w) ident command)\<rparr>"

text \<open>
  \<open>command\<close> with \<open>response = true\<close>, up to the first \<open>await\<close>: the three refusals,
  or a new promise \<open>p\<close> and the record registered before the request is sent.
  \<open>token\<close> is the access token of the authentication module.
\<close>

definition command_begin ::
  "string option \<Rightarrow> string \<Rightarrow> string \<Rightarrow> 'f world \<Rightarrow> CommandResponse + (nat \<times> 'f world)" where
  "command_begin token ident command w =
     (if \<not> truthy token then Inl (failed ''No Access Token'')
      else case get w ident of
             None \<Rightarrow> Inl (failed ''Invalid Server'')
           | Some server \<Rightarrow>
               if status server \<noteq> ''RUNNING'' then Inl (failed ''Server Not Running'')
               else (let p = length (promises w)
                     in Inr (p, w\<lparr>promises := promises w @ [None],
                                  commands := CommandHandler_add (commands w)
                                    \<lparr>req_identifier = ident, req_command = command,
                                     timestamp = None, resolve = p, timeout = None\<rparr>\<rparr>)))"

text \<open>The \<open>catch\<close> block: the record is removed and the promise resolved as failed.\<close>

definition command_catch :: "string \<Rightarrow> string \<Rightarrow> nat \<Rightarrow> string \<Rightarrow> 'f world \<Rightarrow> 'f world" where
  "command_catch ident command p msg w = settle p (failed msg) (remove_by_key ident command w)"

text \<open>
  From the return of \<^verbatim>\<open>fetchWithRetry\<close> to the \<open>await\<close> of \<^verbatim>\<open>response.json()\<close>.
  There is no \<open>return\<close> after the resolve of the \<^verbatim>\<open>!response.ok\<close> block, so the
  body is awaited in both cases; \<open>None\<close> says that the call has ended in \<open>catch\<close>.
\<close>

definition command_fetched ::
  "string \<Rightarrow> string \<Rightarrow> nat \<Rightarrow> fetch_outcome \<Rightarrow> 'f world \<Rightarrow> 'f world \<times> json_outcome option" where
  "command_fetched ident command p outcome w =
     (case outcome of
        FetchThrows msg \<Rightarrow> (command_catch ident command p msg w, None)
      | FetchReturns r \<Rightarrow>
          ((if \<not> resp_ok r
            then settle p (failed (http_reason r)) (remove_by_key ident command w)
            else w),
           Some (resp_json r)))"

text \<open>
  From the return of \<^verbatim>\<open>response.json()\<close> to the end: the not-OK block, again
  without a \<open>return\<close>, then the timeout of 3000 ms on the record that \<open>get\<close> finds.
\<close>

definition command_parsed ::
  "string \<Rightarrow> string \<Rightarrow> nat \<Rightarrow> json_outcome \<Rightarrow> 'f world \<Rightarrow> 'f world" where
  "command_parsed ident command p j w =
     (case j of
        JsonThrows msg \<Rightarrow> command_catch ident command p msg w
      | JsonValue okv \<Rightarrow>
          (let w1 = (if \<not> okv then settle p (failed ''AioRpcError'') (remove_by_key ident command w)
                     else w)
           in case CommandHandler_get (commands w1) ident command of
                None \<Rightarrow> w1
              | Some cmd \<Rightarrow>
                  (case setTimeout (CommandTimeout ident command p) 3000 w1 of
                     (h, w2) \<Rightarrow> w2\<lparr>commands := set_timeout cmd h (commands w2)\<rparr>)))"

text \<open>The part of \<open>command\<close> after the request, run with nothing in between.\<close>

definition command_finish ::
  "string \<Rightarrow> string \<Rightarrow> nat \<Rightarrow> fetch_outcome \<Rightarrow> 'f world \<Rightarrow> 'f world" where
  "command_finish ident command p outcome w =
     (case command_fetched ident command p outcome w of
        (w1, None) \<Rightarrow> w1
      | (w1, Some j) \<Rightarrow> command_parsed ident command p j w1)"

text \<open>\<open>command\<close> with \<open>response = false\<close>, after the same three refusals.\<close>

definition command_no_response :: "fetch_outcome \<Rightarrow> CommandResponse" where
  "command_no_response outcome =
     (case outcome of
        FetchThrows msg \<Rightarrow> failed msg
      | FetchReturns r \<Rightarrow> if \<not> resp_ok r then failed (http_reason r) else timeout_response)"

text \<open>
  The outcomes with which the request has failed: an exception of the transport, a
  status that is not 2xx, a body that cannot be parsed, or a body whose \<open>ok\<close> is
  falsy; and the error string that \<open>command\<close> reports for each.
\<close>

definition request_failed :: "fetch_outcome \<Rightarrow> bool" where
  "request_failed outcome =
     (case outcome of
        FetchThrows msg \<Rightarrow> True
      | FetchReturns r \<Rightarrow>
          if resp_ok r then (case resp_json r of JsonThrows msg \<Rightarrow> True | JsonValue okv \<Rightarrow> \<not> okv)
          else True)"

definition failure_reason :: "fetch_outcome \<Rightarrow> string" where
  "failure_reason outcome =
     (case outcome of
        FetchThrows msg \<Rightarrow> msg
      | FetchReturns r \<Rightarrow>
          if resp_ok r
          then (case resp_json r of JsonThrows msg \<Rightarrow> msg | JsonValue okv \<Rightarrow> ''AioRpcError'')
          else http_reason r)"

section \<open>Timers\<close>

text \<open>
  The callback of the command timeout:
  \<^verbatim>\<open>CommandHandler.remove(CommandHandler.get(identifier, command))\<close>, then
  \<^verbatim>\<open>resolve({ ok: true, response: undefined })\<close>.
\<close>

definition fire :: "timer \<Rightarrow> 'f world \<Rightarrow> 'f world" where
  "fire tm w =
     (case action tm of
        CommandTimeout ident command p \<Rightarrow> settle p timeout_response (remove_by_key ident command w))"

text \<open>
  Time passes until the clock reads \<open>t\<close>, with no other event: the timers due by then
  fire, the earlier first, and among equals the older first.
\<close>

definition advance :: "nat \<Rightarrow> 'f world \<Rightarrow> 'f world" where
  "advance t w =
     foldl (\<lambda>w tm. fire tm w)
       (w\<lparr>clock := t, timers := filter (\<lambda>tm. t < due tm) (timers w)\<rparr>)
       (sort_key due (filter (\<lambda>tm. due tm \<le> t) (timers w)))"


section \<open>ServerManager.updateBroadcasters\<close>

text \<open>
  The pattern of the radio poller,
  \<^verbatim>\<open>/\[(\d+) MHz\] Position: \(([\d.-]+), ([\d.-]+), ([\d.-]+)\), Range: (\d+)/g\<close>,
  matched at the head of a string: the five groups and the length of the match. Each
  repetition is followed by a character outside its class (or ends the pattern), so the
  longest run is the only one that can match.
\<close>

definition expect :: "string \<Rightarrow> string \<Rightarrow> string option" where
  "expect lit s = (if prefix lit s then Some (drop (length lit) s) else None)"

definition isCoordChar :: "char \<Rightarrow> bool" where
  "isCoordChar c = (isDecimalDigit c \<or> c = CHR ''.'' \<or> c = CHR ''-'')"

definition match_range ::
  "string \<Rightarrow> string \<Rightarrow> string \<Rightarrow> string \<Rightarrow> string \<Rightarrow> string
     \<Rightarrow> ((string \<times> string \<times> string \<times> string \<times> string) \<times> nat) option" where
  "match_range s g1 g2 g3 g4 s8 =
     (case expect ''), Range: '' s8 of
        None \<Rightarrow> None
      | Some s9 \<Rightarrow>
          (let g5 = takeWhile isDecimalDigit s9 in
           if g5 = [] then None
           else Some ((g1, g2, g3, g4, g5),
                      length s - length (dropWhile isDecimalDigit s9))))"

definition match_position ::
  "string \<Rightarrow> string \<Rightarrow> string
     \<Rightarrow> ((string \<times> string \<times> string \<times> string \<times> string) \<times> nat) option" where
  "match_position s g1 s3 =
     (let g2 = takeWhile isCoordChar s3 in
      if g2 = [] then None
      else case expect '', '' (dropWhile isCoordChar s3) of
             None \<Rightarrow> None
           | Some s5 \<Rightarrow>
               (let g3 = takeWhile isCoordChar s5 in
                if g3 = [] then None
                else case expect '', '' (dropWhile isCoordChar s5) of
                       None \<Rightarrow> None
                     | Some s7 \<Rightarrow>
                         (let g4 = takeWhile isCoordChar s7 in
                          if g4 = [] then None
                          else match_range s g1 g2 g3 g4 (dropWhile isCoordChar s7))))"

definition match_broadcast ::
  "string \<Rightarrow> ((string \<times> string \<times> string \<times> string \<times> string) \<times> nat) option" where
  "match_broadcast s =
     (case expect ''['' s of
        None \<Rightarrow> None
      | Some s1 \<Rightarrow>
          (let g1 = takeWhile isDecimalDigit s1 in
           if g1 = [] then None
           else case expect '' MHz] Position: ('' (dropWhile isDecimalDigit s1) of
                  None \<Rightarrow> None
                | Some s3 \<Rightarrow> match_position s g1 s3))"

text \<open>
  The loop \<^verbatim>\<open>while ((match = regex.exec(response)) !== null)\<close>: with the flag
  \<open>g\<close> each search starts where the last match ended. \<open>k\<close> counts the characters of
  the last match still to be passed.
\<close>

fun exec_all :: "nat \<Rightarrow> string \<Rightarrow> (string \<times> string \<times> string \<times> string \<times> string) list" where
  "exec_all k [] = []"
| "exec_all k (c # cs) =
     (if 0 < k then exec_all (k - 1) cs
      else case match_broadcast (c # cs) of
             Some (g, n) \<Rightarrow> g # exec_all (n - 1) cs
           | None \<Rightarrow> exec_all 0 cs)"

record 'f broadcast =
  bc_frequency :: nat
  bc_coordinates :: "'f list"
  bc_range :: nat

text \<open>
  The body of the loop. \<^verbatim>\<open>parseInt(digits, 10)\<close> of a run of digits is its value;
  \<^verbatim>\<open>parseFloat\<close> is a parameter.
\<close>

definition to_broadcast ::
  "(string \<Rightarrow> 'f) \<Rightarrow> string \<times> string \<times> string \<times> string \<times> string \<Rightarrow> 'f broadcast" where
  "to_broadcast parseFloat m =
     (case m of (g1, g2, g3, g4, g5) \<Rightarrow>
        \<lparr>bc_frequency = digitsValue 10 g1,
         bc_coordinates = [parseFloat g2, parseFloat g3, parseFloat g4],
         bc_range = digitsValue 10 g5\<rparr>)"

text \<open>
  \<^verbatim>\<open>parseInt(b.frequency)\<close> of a number: the number is printed and read back, which
  returns it unchanged while it prints as plain digits (below \<open>10 ^ 21\<close>).
\<close>

definition parseInt_number :: "nat \<Rightarrow> nat" where
  "parseInt_number n = n"

text \<open>
  The callback of \<^verbatim>\<open>server.frequencies.forEach\<close>. The loop runs over the array
  that \<open>server.frequencies\<close> held when it began; the callback assigns a new, filtered
  array to the field, which is the first component of the state here.
\<close>

definition frequency_lost ::
  "'f broadcast list \<Rightarrow> nat list \<times> 'f RCEEvent list \<Rightarrow> nat \<Rightarrow> nat list \<times> 'f RCEEvent list" where
  "frequency_lost broadcasts st freq =
     (case st of (fs, evs) \<Rightarrow>
        if find (\<lambda>b. parseInt_number (bc_frequency b) = freq) broadcasts = None
        then (filter (\<lambda>f. f \<noteq> freq) fs, evs @ [FrequencyLost freq])
        else (fs, evs))"

text \<open>The callback of \<^verbatim>\<open>broadcasts.forEach\<close>.\<close>

definition frequency_gained ::
  "nat list \<times> 'f RCEEvent list \<Rightarrow> 'f broadcast \<Rightarrow> nat list \<times> 'f RCEEvent list" where
  "frequency_gained st b =
     (case st of (fs, evs) \<Rightarrow>
        if bc_frequency b \<in> set fs then (fs, evs)
        else (fs @ [bc_frequency b],
              evs
              @ (if bc_frequency b = 4765 then [EventStart ''Small Oil Rig'' False]
                 else if bc_frequency b = 4768 then [EventStart ''Oil Rig'' False]
                 else [])
              @ [FrequencyGained (bc_frequency b) (bc_coordinates b) (bc_range b)]))"

text \<open>
  \<open>updateBroadcasters\<close> from the return of the awaited
  \<^verbatim>\<open>command(identifier, "rf.listboardcaster", true)\<close>: \<open>server\<close> is the server
  object that the poller fetched before the call, \<open>broadcasters\<close> the command's result.
  A missing or empty response ends the run with nothing changed.
\<close>

definition updateBroadcasters ::
  "(string \<Rightarrow> 'f) \<Rightarrow> RustServer \<Rightarrow> CommandResponse \<Rightarrow> 'f world \<Rightarrow> RustServer \<times> 'f world" where
  "updateBroadcasters parseFloat server broadcasters w =
     (case response broadcasters of
        None \<Rightarrow> (server, w)
      | Some body \<Rightarrow>
          if body = [] then (server, w)
          else (let broadcasts = map (to_broadcast parseFloat) (exec_all 0 body) in
                case foldl (frequency_lost broadcasts) (frequencies server, [])
                       (frequencies server) of
                  st1 \<Rightarrow>
                    (case foldl frequency_gained st1 broadcasts of
                       (fs, evs) \<Rightarrow>
                         (let server' = server\<lparr>frequencies := fs\<rparr>
                          in (server',
                              update server' (emit_all (server_identifier server) evs w))))))"

text \<open>A table and patterns to run the handlers on: examples, not the library's own.\<close>

definition example_playerKillData :: "kill_entry list" where
  "example_playerKillData =
     [\<lparr>entry_id = ''thirst'', entry_name = ''Thirst'', entry_type = Other\<rparr>,
      \<lparr>entry_id = ''bear'', entry_name = ''Bear'', entry_type = Other\<rparr>]"

definition example_server :: RustServer where
  "example_server =
     \<lparr>server_identifier = ''eu1'', serverId = (1387554, 77), region = ''EU'', flags = [],
      status = ''RUNNING'', players = [], frequencies = [4765], silent = False\<rparr>"

definition example_world :: "string world" where
  "example_world =
     \<lparr>servers = [''eu1'' \<mapsto> example_server], commands = [], promises = [], timers = [],
      next_timer = 0, clock = 0, emitted = []\<rparr>"

text \<open>
  Example patterns: a line is \<open>date:LOG:content\<close>, and a command start is the line
  \<open>Executing console system command\<close> followed by the command text.
\<close>

definition example_patterns :: RegularExpressions where
  "example_patterns =
     \<lparr>re_Log = (\<lambda>s. case split s '':LOG:'' of d # c # _ \<Rightarrow> Some (d, c) | _ \<Rightarrow> None),
      re_CommandExecuting =
        (\<lambda>s. if prefix ''Executing console system command '' s then Some (drop 33 s) else None),
      re_VendingMachineName = (\<lambda>s. None),
      re_QuickChat = (\<lambda>s. None),
      re_CustomZoneCreated = (\<lambda>s. None),
      re_CustomZoneRemoved = (\<lambda>s. None),
      re_PlayerRoleAdd = (\<lambda>s. None),
      re_PlayerRoleRemove = (\<lambda>s. None),
      re_ItemSpawn = (\<lambda>s. None),
      re_NoteEdit = (\<lambda>s. None),
      re_TeamCreate = (\<lambda>s. None),
      re_TeamJoin = (\<lambda>s. None),
      re_TeamInvite = (\<lambda>s. None),
      re_TeamLeave = (\<lambda>s. None),
      re_TeamInviteCancel = (\<lambda>s. None),
      re_TeamPromoted = (\<lambda>s. None),
      re_KitSpawn = (\<lambda>s. None),
      re_KitGive = (\<lambda>s. None),
      re_SpecialEventSet = (\<lambda>s. None)\<rparr>"

text \<open>The events of a kind, and the events that a step adds to those emitted before it.\<close>

definition is_EventStart :: "'f RCEEvent \<Rightarrow> bool" where
  "is_EventStart e = (case e of EventStart name special \<Rightarrow> True | _ \<Rightarrow> False)"

definition is_PlayerKill :: "'f RCEEvent \<Rightarrow> bool" where
  "is_PlayerKill e = (case e of PlayerKill victim killer \<Rightarrow> True | _ \<Rightarrow> False)"

definition new_events :: "'f world \<Rightarrow> 'f world \<Rightarrow> 'f RCEEvent list" where
  "new_events w w' = map snd (drop (length (emitted w)) (emitted w'))"

text \<open>
  A batch for the examples. The world before it is \<open>example_world\<close> after the dispatch
  of the command \<open>status\<close> on the session \<open>eu1\<close>: one in-flight command, not yet
  stamped, with the pending promise 0. \<open>example_stamped\<close> is the world after the
  first line of the batch, which stamps the command.
\<close>

definition example_dispatched :: "string world" where
  "example_dispatched =
     example_world\<lparr>promises := [None],
       commands := [\<lparr>req_identifier = ''eu1'', req_command = ''status'', timestamp = None,
                     resolve = 0, timeout = None\<rparr>]\<rparr>"

definition example_stamped_command :: CommandRequest where
  "example_stamped_command =
     \<lparr>req_identifier = ''eu1'', req_command = ''status'', timestamp = Some ''12:00:01'',
      resolve = 0, timeout = None\<rparr>"

definition example_stamped :: "string world" where
  "example_stamped =
     example_world\<lparr>promises := [None], commands := [example_stamped_command],
       emitted := [(''eu1'', Message ''Executing console system command status''),
                   (''eu1'', ExecutingCommand ''status'')]\<rparr>"

definition example_after_two_lines :: "string world \<times> string option" where
  "example_after_two_lines =
     foldl (handle_data example_patterns example_playerKillData ''eu1'')
       (example_dispatched, None)
       [''12:00:01:LOG:Executing console system command status'',
        ''12:00:01:LOG:players: 3'']"

definition example_after_three_lines :: "string world \<times> string option" where
  "example_after_three_lines =
     handle_data example_patterns example_playerKillData ''eu1'' example_after_two_lines
       ''12:00:02:LOG:hello''"

text \<open>
  Two dispatches of the same command on the same session. The request of the first
  succeeds at time 0; the second is dispatched at 2990, while the first is in flight;
  the timeout of the first fires at 3000; the request of the second succeeds at 3040.
  No log line is handled.
\<close>

definition example_ok_response :: Response where
  "example_ok_response =
     \<lparr>resp_ok = True, resp_status = 200, resp_statusText = ''OK'', resp_json = JsonValue True\<rparr>"




text \<open>
  What ending an in-flight command \<open>c\<close> with the content \<open>log\<close> does, from the world
  \<open>w\<close> to the world \<open>w'\<close>: its promise is resolved with the content, its timer is
  cleared, and it is out of the registry.
\<close>

definition ended :: "CommandRequest \<Rightarrow> string \<Rightarrow> 'f world \<Rightarrow> 'f world \<Rightarrow> bool" where
  "ended c log w w' =
     (promises w' = promises (settle (resolve c) \<lparr>ok = True, response = Some log, error = None\<rparr> w)
      \<and> timers w' = filter (\<lambda>tm. Some (timer_id tm) \<noteq> timeout c) (timers w)
      \<and> commands w' = filter (\<lambda>d. \<not> same_key (req_identifier c) (req_command c) d) (commands w)
      \<and> CommandHandler_get (commands w') (req_identifier c) (req_command c) = None)"

section \<open>The event loop around a call of command\<close>

text \<open>
  \<open>command\<close> is asynchronous: while it awaits the request, while it awaits the body
  of the response, and after it has returned, other callbacks run. Two kinds are
  modelled: the passing of time up to a reading of the clock, with the timers that
  fire on the way, and the delivery of a batch of console messages to \<open>handle\<close>, with
  the server object of a session.
\<close>

datatype happening = Tick nat | Batch RustServer "string option"

definition happen ::
  "RegularExpressions \<Rightarrow> kill_entry list \<Rightarrow> 'f world \<Rightarrow> happening \<Rightarrow> 'f world" where
  "happen rx playerKillData w h =
     (case h of
        Tick t \<Rightarrow> advance t w
      | Batch server message \<Rightarrow> snd (handle rx playerKillData message server w))"

definition happen_all ::
  "RegularExpressions \<Rightarrow> kill_entry list \<Rightarrow> happening list \<Rightarrow> 'f world \<Rightarrow> 'f world" where
  "happen_all rx playerKillData hs w = foldl (happen rx playerKillData) w hs"

text \<open>
  The part of \<open>command\<close> after the request is sent, with what happens at its two
  \<open>await\<close>s: \<open>during_request\<close> while \<^verbatim>\<open>fetchWithRetry\<close> is awaited, \<open>during_body\<close>
  while \<^verbatim>\<open>response.json()\<close> is awaited (which is not reached when the request
  throws).
\<close>

definition command_resumed ::
  "RegularExpressions \<Rightarrow> kill_entry list \<Rightarrow> string \<Rightarrow> string \<Rightarrow> nat \<Rightarrow> fetch_outcome
     \<Rightarrow> happening list \<Rightarrow> happening list \<Rightarrow> 'f world \<Rightarrow> 'f world" where
  "command_resumed rx playerKillData ident command p outcome during_request during_body w =
     (case command_fetched ident command p outcome
             (happen_all rx playerKillData during_request w) of
        (w1, None) \<Rightarrow> w1
      | (w1, Some j) \<Rightarrow>
          command_parsed ident command p j (happen_all rx playerKillData during_body w1))"

text \<open>
  What has happened when \<open>command\<close> comes to know that the request has failed: at
  the return of the request when it throws or its status is not 2xx, at the return of
  the body otherwise.
\<close>

definition before_detection ::
  "fetch_outcome \<Rightarrow> happening list \<Rightarrow> happening list \<Rightarrow> happening list" where
  "before_detection outcome during_request during_body =
     (case outcome of
        FetchThrows msg \<Rightarrow> during_request
      | FetchReturns r \<Rightarrow>
          if \<not> resp_ok r then during_request else during_request @ during_body)"

text \<open>
  A step from \<open>w\<close> to \<open>w'\<close> that has not correlated the command of the key
  \<open>(ident, command)\<close> and the promise \<open>p\<close>: the three calls that end a command in
  \<open>handle\<close> were not made for it. Its promise is as it was, its key is in the registry
  if it was, and its timeout is pending if it was.
\<close>

definition command_untouched :: "string \<Rightarrow> string \<Rightarrow> nat \<Rightarrow> 'f world \<Rightarrow> 'f world \<Rightarrow> bool" where
  "command_untouched ident command p w w' =
     (promises w' ! p = promises w ! p
      \<and> (CommandHandler_get (commands w') ident command = None)
        = (CommandHandler_get (commands w) ident command = None)
      \<and> filter (\<lambda>tm. action tm = CommandTimeout ident command p) (timers w')
        = filter (\<lambda>tm. action tm = CommandTimeout ident command p) (timers w))"

text \<open>
  No log-line correlation resolves the command in a run of happenings from \<open>w\<close>: each
  batch of the run leaves the command untouched.
\<close>

fun uncorrelated ::
  "RegularExpressions \<Rightarrow> kill_entry list \<Rightarrow> string \<Rightarrow> string \<Rightarrow> nat
     \<Rightarrow> happening list \<Rightarrow> 'f world \<Rightarrow> bool" where
  "uncorrelated rx playerKillData ident command p [] w = True"
| "uncorrelated rx playerKillData ident command p (h # hs) w =
     ((case h of
         Tick t \<Rightarrow> True
       | Batch server message \<Rightarrow>
           command_untouched ident command p w (happen rx playerKillData w h))
      \<and> uncorrelated rx playerKillData ident command p hs (happen rx playerKillData w h))"

text \<open>A pending timer whose callback resolves the promise \<open>p\<close>.\<close>

definition resolves_promise :: "nat \<Rightarrow> timer \<Rightarrow> bool" where
  "resolves_promise p tm = (case action tm of CommandTimeout i c q \<Rightarrow> q = p)"


text \<open>
  What a step from \<open>w\<close> to \<open>w'\<close> keeps when it adds no promise, no timer and no record
  to the registry, and changes no promise that is resolved.
\<close>

definition keeps :: "'f world \<Rightarrow> 'f world \<Rightarrow> bool" where
  "keeps w w' =
     (length (promises w') = length (promises w)
      \<and> (\<forall>q v. promises w ! q = Some v \<longrightarrow> promises w' ! q = Some v)
      \<and> set (timers w') \<subseteq> set (timers w)
      \<and> next_timer w' = next_timer w
      \<and> (\<forall>i c. CommandHandler_get (commands w) i c = None
               \<longrightarrow> CommandHandler_get (commands w') i c = None))"

text \<open>
  Examples for the dispatch: the server object of the session \<open>eu1\<close> once its first
  batch has been seen, a batch of two lines (the echo of the command \<open>status\<close> and a
  line with the same timestamp), and a response with the status 502.
\<close>

definition example_live_server :: RustServer where
  "example_live_server = example_server\<lparr>flags := [''INIT_LOGS'']\<rparr>"

definition example_echo_line :: string where
  "example_echo_line = ''12:00:01:LOG:Executing console system command status''"

definition example_status_batch :: string where
  "example_status_batch = example_echo_line @ [CHR 0x0A] @ ''12:00:01:LOG:players: 3''"

definition example_bad_gateway :: fetch_outcome where
  "example_bad_gateway =
     FetchReturns \<lparr>resp_ok = False, resp_status = 502, resp_statusText = ''Bad Gateway'',
                   resp_json = JsonThrows ''Unexpected token''\<rparr>"

text \<open>
  Happenings for the examples: the echo of the command \<open>status\<close> alone, the batch of
  two lines, and a line that has nothing to do with the command.
\<close>

definition example_echo :: happening where
  "example_echo = Batch example_live_server (Some example_echo_line)"

definition example_status_lines :: happening where
  "example_status_lines = Batch example_live_server (Some example_status_batch)"

definition example_hello :: happening where
  "example_hello = Batch example_live_server (Some ''12:00:02:LOG:hello'')"

section \<open>Properties of the population differ\<close>

text \<open>
  Claim C4. The population differ returns as \<open>joined\<close> the elements of the new list that
  are not in the old list and as \<open>left\<close> the elements of the old list that are not in the
  new list, each in the relative order (and with the multiplicity) of its source list:
  each result is a subsequence of its source, keeps every occurrence of an element it
  contains, and has exactly the difference as its elements. The function is pure, so
  its inputs are not changed. This holds for all lists; when the two lists have no
  element in common the results are the two lists themselves.
\<close>

theorem comparePopulation_difference:
  "set (joined (comparePopulation oldList newList)) = set newList - set oldList
   \<and> set (left (comparePopulation oldList newList)) = set oldList - set newList
   \<and> subseq (joined (comparePopulation oldList newList)) newList
   \<and> subseq (left (comparePopulation oldList newList)) oldList
   \<and> count_list (joined (comparePopulation oldList newList)) x
       = (if x \<in> set oldList then 0 else count_list newList x)
   \<and> count_list (left (comparePopulation oldList newList)) x
       = (if x \<in> set newList then 0 else count_list oldList x)
   \<and> (if set oldList \<inter> set newList = {}
        then joined (comparePopulation oldList newList) = newList
           \<and> left (comparePopulation oldList newList) = oldList
        else True)"
proof -
  have cnt: "count_list (filter P xs) x = (if P x then count_list xs x else 0)"
    for P and xs :: "string list"
    by (induction xs) auto
  have disj: "A \<inter> set xs = {} \<Longrightarrow> filter (\<lambda>y. \<not> (y \<in> A)) xs = xs"
    for A and xs :: "string list"
    by (induction xs) auto
  show ?thesis
    unfolding comparePopulation_def Let_def
    by (auto simp: cnt disj Int_commute)
qed

section \<open>Properties of the kill-participant resolver\<close>

lemmas number_defs = Number_class_def Number_truthy_def trim_def isWhiteSpace_def
  StrUnsignedDecimalLiteral_def ExponentPart_def decimalIsZero_def digitsValue_def digitValue_def
  isDecimalDigit_def nonDecimalClass_def isHexDigit_def Let_def

lemma digit_not_white_space: "isDecimalDigit c \<Longrightarrow> \<not> isWhiteSpace c"
  by (auto simp: isDecimalDigit_def isWhiteSpace_def)

lemma digit_not_letter:
  "isDecimalDigit c \<Longrightarrow> c \<notin> set ''xXoObBeEI+-.''"
  by (auto simp: isDecimalDigit_def)

lemma digitValue_zero: "isDecimalDigit c \<Longrightarrow> digitValue c = 0 \<longleftrightarrow> c = CHR ''0''"
  by (auto simp: isDecimalDigit_def digitValue_def)

lemma dropWhile_none: "xs \<noteq> [] \<Longrightarrow> \<not> P (hd xs) \<Longrightarrow> dropWhile P xs = xs"
  by (cases xs) auto

lemma trim_digits:
  assumes "list_all isDecimalDigit s"
  shows "trim s = s"
proof (cases "s = []")
  case True
  then show ?thesis by (simp add: trim_def)
next
  case False
  have h: "\<not> isWhiteSpace (hd s)" and l: "\<not> isWhiteSpace (hd (rev s))"
    using assms False by (auto simp: list_all_iff hd_rev intro!: digit_not_white_space)
  have d1: "dropWhile isWhiteSpace s = s"
    using False h by (rule dropWhile_none)
  have d2: "dropWhile isWhiteSpace (rev s) = rev s"
    using l False by (intro dropWhile_none) simp_all
  show ?thesis
    by (simp add: trim_def d1 d2)
qed

lemma digitsValue_zero:
  assumes "list_all isDecimalDigit s"
  shows "digitsValue 10 s = 0 \<longleftrightarrow> list_all (\<lambda>c. c = CHR ''0'') s"
proof -
  have "foldl (\<lambda>a c. a * 10 + digitValue c) a s = 0
        \<longleftrightarrow> a = 0 \<and> list_all (\<lambda>c. c = CHR ''0'') s" for a
    using assms by (induction s arbitrary: a) (auto simp: digitValue_zero)
  then show ?thesis by (simp add: digitsValue_def)
qed

lemma decimal_literal_digits:
  assumes "s \<noteq> []" and "list_all isDecimalDigit s"
  shows "StrUnsignedDecimalLiteral s = Some (s, [], 0)"
proof -
  have a: "takeWhile (\<lambda>c. c \<noteq> CHR ''e'' \<and> c \<noteq> CHR ''E'') s = s"
    "dropWhile (\<lambda>c. c \<noteq> CHR ''e'' \<and> c \<noteq> CHR ''E'') s = []"
    using assms(2) digit_not_letter by (auto simp: list_all_iff takeWhile_eq_all_conv)
  have b: "takeWhile isDecimalDigit s = s" "dropWhile isDecimalDigit s = []"
    using assms(2) by (auto simp: list_all_iff takeWhile_eq_all_conv)
  show ?thesis
    using assms(1) by (simp add: StrUnsignedDecimalLiteral_def a b)
qed

text \<open>
  The numeric check on a string of decimal digits: it converts to a non-zero number,
  and is truthy, exactly when one of its digits is not \<open>0\<close>.
\<close>

lemma Number_class_digits:
  assumes "s \<noteq> []" and "list_all isDecimalDigit s"
  shows "Number_class s = (if list_all (\<lambda>c. c = CHR ''0'') s then IsZero else NonZero)"
proof -
  obtain c cs where s: "s = c # cs"
    using assms(1) by (cases s) auto
  have c: "isDecimalDigit c" and cs: "list_all isDecimalDigit cs"
    using assms(2) by (simp_all add: s)
  have np: "\<not> prefix [CHR ''0'', x] s" if "x \<in> set ''xXoObB''" for x
  proof
    assume "prefix [CHR ''0'', x] s"
    then have "x \<in> set s" by (auto simp: prefix_def)
    then have "isDecimalDigit x" using assms(2) by (simp add: list_all_iff)
    then show False using digit_not_letter [of x] that by auto
  qed
  have sign: "c \<noteq> CHR ''+''" "c \<noteq> CHR ''-''"
    using digit_not_letter [OF c] by auto
  have inf: "s \<noteq> ''Infinity''"
    using digit_not_letter [OF c] by (auto simp: s)
  have z: "decimalIsZero s [] 0 = list_all (\<lambda>c. c = CHR ''0'') s"
    using digitsValue_zero [OF assms(2)] by (simp add: decimalIsZero_def)
  have p: "\<not> prefix ''0x'' s" "\<not> prefix ''0X'' s" "\<not> prefix ''0o'' s"
    "\<not> prefix ''0O'' s" "\<not> prefix ''0b'' s" "\<not> prefix ''0B'' s"
    using np by simp_all
  have u: "(case s of [] \<Rightarrow> [] | c # r \<Rightarrow> if c = CHR ''+'' \<or> c = CHR ''-'' then r else s) = s"
    by (simp add: s sign)
  have "Number_class s = (if decimalIsZero s [] 0 then IsZero else NonZero)"
    unfolding Number_class_def Let_def trim_digits [OF assms(2)] u
    by (simp add: assms(1) p inf decimal_literal_digits [OF assms])
  then show ?thesis by (simp add: z)
qed

text \<open>
  Claim C9. For every string \<open>s\<close> and every table, \<open>getKill\<close> returns a record whose
  id is \<open>s\<close> unchanged. The string \<open>0\<close> converts to the number zero, which is
  falsy, so the numeric check fails for it: unless the table has an entry for \<open>0\<close>, it
  is classified as a player named \<open>0\<close>, not as an NPC.
\<close>

theorem getKill_id_unchanged_zero_is_player:
  "pk_id (getKill playerKillData s) = s
   \<and> Number_class ''0'' = IsZero
   \<and> \<not> Number_truthy ''0''
   \<and> (find (\<lambda>e. entry_id e = ''0'') playerKillData = None \<longrightarrow>
        getKill playerKillData ''0'' = \<lparr>pk_id = ''0'', pk_name = ''0'', pk_type = Player\<rparr>)"
proof -
  have z: "Number_class ''0'' = IsZero"
    by (simp add: number_defs)
  have lz: "toLowerCase ''0'' = ''0''"
    by (simp add: toLowerCase_def toLowerCase_char_def)
  have "pk_id (getKill playerKillData s) = s"
    by (simp add: getKill_def split: option.splits)
  moreover have "find (\<lambda>e. entry_id e = ''0'') playerKillData = None \<Longrightarrow>
      getKill playerKillData ''0'' = \<lparr>pk_id = ''0'', pk_name = ''0'', pk_type = Player\<rparr>"
    by (simp add: getKill_def lz Number_truthy_def z)
  ultimately show ?thesis
    by (simp add: z Number_truthy_def)
qed

theorem getKill_id_unchanged_zero_is_player_witness:
  "find (\<lambda>e. entry_id e = ''0'') example_playerKillData = None
   \<and> pk_id (getKill example_playerKillData ''Bear'') = ''Bear''
   \<and> getKill example_playerKillData ''0'' = \<lparr>pk_id = ''0'', pk_name = ''0'', pk_type = Player\<rparr>"
proof -
  have h: "find (\<lambda>e. entry_id e = ''0'') example_playerKillData = None"
    by (simp add: example_playerKillData_def)
  show ?thesis
    using h getKill_id_unchanged_zero_is_player [of example_playerKillData "''Bear''"] by simp
qed

section \<open>Properties of the radio poller\<close>

lemma foldl_frequency_lost_distinct:
  "distinct (fst st) \<Longrightarrow> distinct (fst (foldl (frequency_lost bs) st xs))"
  by (induction xs arbitrary: st) (auto simp: frequency_lost_def split: prod.splits)

lemma foldl_frequency_gained_distinct:
  "distinct (fst st) \<Longrightarrow> distinct (fst (foldl frequency_gained st bs))"
  by (induction bs arbitrary: st) (auto simp: frequency_gained_def split: prod.splits)

text \<open>
  Claim C10. The radio poller keeps the stored frequency list free of duplicates: the
  first loop only filters the list, and the second appends a frequency only when the
  list does not hold it. This is so for every response, the missing and the empty one
  included, and the server object handed to \<open>update\<close> is the one returned.
\<close>

theorem updateBroadcasters_distinct:
  assumes "distinct (frequencies server)"
  shows "distinct (frequencies (fst (updateBroadcasters parseFloat server broadcasters w)))
         \<and> (snd (updateBroadcasters parseFloat server broadcasters w) = w
            \<or> get (snd (updateBroadcasters parseFloat server broadcasters w))
                 (server_identifier server)
               = Some (fst (updateBroadcasters parseFloat server broadcasters w)))"
proof (cases "response broadcasters")
  case None
  then show ?thesis using assms by (simp add: updateBroadcasters_def)
next
  case (Some body)
  define bs where "bs = map (to_broadcast parseFloat) (exec_all 0 body)"
  define st1 where
    "st1 = foldl (frequency_lost bs) (frequencies server, []) (frequencies server)"
  define st2 where "st2 = foldl frequency_gained st1 bs"
  have d1: "distinct (fst st1)"
    unfolding st1_def using assms by (intro foldl_frequency_lost_distinct) simp
  have d2: "distinct (fst st2)"
    unfolding st2_def using d1 by (rule foldl_frequency_gained_distinct)
  show ?thesis
  proof (cases "body = []")
    case True
    then show ?thesis using Some assms by (simp add: updateBroadcasters_def)
  next
    case False
    have r: "updateBroadcasters parseFloat server broadcasters w
             = (server\<lparr>frequencies := fst st2\<rparr>,
                update (server\<lparr>frequencies := fst st2\<rparr>)
                  (emit_all (server_identifier server) (snd st2) w))"
      using Some False
      by (simp add: updateBroadcasters_def Let_def bs_def st1_def st2_def split: prod.splits)
    show ?thesis using d2 by (simp add: r update_def get_def)
  qed
qed

theorem updateBroadcasters_distinct_witness:
  "distinct [4765 :: nat, 4768]
   \<and> distinct (frequencies (fst (updateBroadcasters (\<lambda>s. s)
        \<lparr>server_identifier = ''eu1'', serverId = (1387554, 77), region = ''EU'', flags = [],
         status = ''RUNNING'', players = [], frequencies = [4765, 4768], silent = False\<rparr>
        \<lparr>ok = True, response = Some ''[4768 MHz] Position: (1.5, 2, -3), Range: 100'',
         error = None\<rparr>
        \<lparr>servers = Map.empty, commands = [], promises = [], timers = [], next_timer = 0,
         clock = 0, emitted = []\<rparr>)))"
  using updateBroadcasters_distinct [of
      "\<lparr>server_identifier = ''eu1'', serverId = (1387554, 77), region = ''EU'', flags = [],
         status = ''RUNNING'', players = [], frequencies = [4765, 4768], silent = False\<rparr>"
      "\<lambda>s. s"
      "\<lparr>ok = True, response = Some ''[4768 MHz] Position: (1.5, 2, -3), Range: 100'',
         error = None\<rparr>"
      "\<lparr>servers = Map.empty, commands = [], promises = [], timers = [], next_timer = 0,
         clock = 0, emitted = []\<rparr>"]
  by simp

lemmas radio_pattern_defs = match_broadcast_def match_position_def match_range_def expect_def
  isCoordChar_def isDecimalDigit_def Let_def

text \<open>
  Claim C6. A radio-poller run on a server whose stored frequencies are \<open>[4765]\<close>, with a
  response in which the pattern finds one broadcast, at 4768 MHz, emits exactly three
  events: frequency lost for 4765, the timed-event start named \<open>Oil Rig\<close>, and
  frequency gained for 4768 with the coordinates and the range of the broadcast. The
  stored frequencies are \<open>[4768]\<close> afterwards, in the server object and in the server
  map.
\<close>

theorem updateBroadcasters_4765_to_4768:
  assumes "frequencies server = [4765]"
    and "response broadcasters = Some body"
    and "map (to_broadcast parseFloat) (exec_all 0 body)
         = [\<lparr>bc_frequency = 4768, bc_coordinates = cs, bc_range = r\<rparr>]"
  shows "updateBroadcasters parseFloat server broadcasters w
         = (server\<lparr>frequencies := [4768]\<rparr>,
            update (server\<lparr>frequencies := [4768]\<rparr>)
              (w\<lparr>emitted := emitted w
                   @ [(server_identifier server, FrequencyLost 4765),
                      (server_identifier server, EventStart ''Oil Rig'' False),
                      (server_identifier server, FrequencyGained 4768 cs r)]\<rparr>))"
proof -
  have ne: "body \<noteq> []"
    using assms(3) by auto
  show ?thesis
    using assms(1,2) ne
    by (simp add: updateBroadcasters_def assms(3) frequency_lost_def frequency_gained_def
        parseInt_number_def emit_all_def emit_def Let_def)
qed

theorem updateBroadcasters_4765_to_4768_witness:
  "updateBroadcasters (\<lambda>s. s) example_server
     \<lparr>ok = True, response = Some ''[4768 MHz] Position: (1.5, 2, -3), Range: 100'', error = None\<rparr>
     example_world
   = (example_server\<lparr>frequencies := [4768]\<rparr>,
      update (example_server\<lparr>frequencies := [4768]\<rparr>)
        (example_world\<lparr>emitted :=
           [(''eu1'', FrequencyLost 4765), (''eu1'', EventStart ''Oil Rig'' False),
            (''eu1'', FrequencyGained 4768 [''1.5'', ''2'', ''-3''] 100)]\<rparr>))"
proof -
  have h1: "frequencies example_server = [4765]"
    by (simp add: example_server_def)
  have h3: "map (to_broadcast (\<lambda>s. s))
              (exec_all 0 ''[4768 MHz] Position: (1.5, 2, -3), Range: 100'')
            = [\<lparr>bc_frequency = 4768, bc_coordinates = [''1.5'', ''2'', ''-3''], bc_range = 100\<rparr>]"
    by (simp add: radio_pattern_defs to_broadcast_def digitsValue_def digitValue_def)
  show ?thesis
    using updateBroadcasters_4765_to_4768 [OF h1 _ h3, of
        "\<lparr>ok = True, response = Some ''[4768 MHz] Position: (1.5, 2, -3), Range: 100'',
           error = None\<rparr>" example_world]
    by (simp add: example_server_def example_world_def)
qed

section \<open>Properties of the console-message handler\<close>

lemma emitted_emit_all: "emitted (emit_all ident evs w) = emitted w @ map (Pair ident) evs"
  unfolding emit_all_def by (induction evs arbitrary: w) (simp_all add: emit_def)

lemma emitted_settle: "emitted (settle p v w) = emitted w"
  by (simp add: settle_def)

lemma emitted_clearTimeout: "emitted (clearTimeout h w) = emitted w"
  by (simp add: clearTimeout_def split: option.splits)

lemma emitted_resolve_command: "emitted (resolve_command c log w) = emitted w"
  by (simp add: resolve_command_def Let_def emitted_settle emitted_clearTimeout)

lemma emitted_command_response_other:
  "emitted (fst (command_response_other ident log (w, cur))) = emitted w"
  by (simp add: command_response_other_def emitted_resolve_command split: option.splits)

lemma emitted_command_response:
  "emitted (fst (command_response ident date log (w, cur))) = emitted w"
  by (simp add: command_response_def emitted_resolve_command emitted_command_response_other
      split: option.splits)

lemma emitted_command_executing:
  "emitted (fst (command_executing rx ident date log w))
   = emitted w @ (case re_CommandExecuting rx log of None \<Rightarrow> []
                  | Some cmd \<Rightarrow> [(ident, ExecutingCommand cmd)])"
  by (simp add: command_executing_def Let_def emit_def split: option.splits)

text \<open>
  The events of a line that does not stamp a command: the message, the command-start
  event when the line is one, and the decoded events.
\<close>

lemma new_events_handle_log:
  assumes "snd (command_executing rx ident date log (emit ident (Message log) w)) = None"
  shows "new_events w (fst (handle_log rx tbl ident date log (w, cur)))
         = Message log
           # (case re_CommandExecuting rx log of None \<Rightarrow> [] | Some cmd \<Rightarrow> [ExecutingCommand cmd])
           @ decode rx tbl log"
proof -
  obtain w1 where e: "command_executing rx ident date log (emit ident (Message log) w) = (w1, None)"
    using assms by (cases "command_executing rx ident date log (emit ident (Message log) w)") auto
  have w1: "emitted w1 = emitted w @ [(ident, Message log)]
      @ (case re_CommandExecuting rx log of None \<Rightarrow> []
         | Some cmd \<Rightarrow> [(ident, ExecutingCommand cmd)])"
    using emitted_command_executing [of rx ident date log "emit ident (Message log) w"]
    unfolding e by (simp add: emit_def)
  obtain w2 cur2 where r: "command_response ident date log (w1, cur) = (w2, cur2)"
    by (cases "command_response ident date log (w1, cur)") auto
  have w2: "emitted w2 = emitted w1"
    using emitted_command_response [of ident date log w1 cur] by (simp add: r)
  show ?thesis
    by (simp add: handle_log_def e r new_events_def emitted_emit_all w2 w1 comp_def
        split: option.splits)
qed

lemma concat_map_if:
  "concat (map (\<lambda>(key, name, special). if P key then [f name special] else []) xs)
   = map (\<lambda>(key, name, special). f name special) (filter (\<lambda>(key, name, special). P key) xs)"
  by (induction xs) auto

lemma EventStart_decode_chat: "filter is_EventStart (decode_chat rx log) = []"
  by (auto simp: decode_chat_def is_EventStart_def split: option.splits)

lemma EventStart_decode_roles: "filter is_EventStart (decode_roles rx log) = []"
  by (cases "str_includes log ''Added''"; cases "str_includes log ''Removed''")
     (auto simp: decode_roles_def is_EventStart_def Let_def split: option.splits)

lemma EventStart_decode_teams: "filter is_EventStart (decode_teams rx log) = []"
  by (auto simp: decode_teams_def is_EventStart_def split: option.splits)

lemma EventStart_decode_kits: "filter is_EventStart (decode_kits rx log) = []"
  by (auto simp: decode_kits_def is_EventStart_def split: option.splits)

lemma EventStart_decode_player_kill: "filter is_EventStart (decode_player_kill tbl log) = []"
  by (cases "str_includes log '' was killed by ''")
     (auto simp: decode_player_kill_def is_EventStart_def split: list.splits)

lemma EventStart_decode_event_start:
  "filter is_EventStart (decode_event_start log) = decode_event_start log"
proof -
  have "\<forall>e \<in> set (decode_event_start log). is_EventStart e"
    by (auto simp: decode_event_start_def is_EventStart_def split: if_splits)
  then show ?thesis by (simp add: filter_id_conv)
qed

lemma EventStart_decode: "filter is_EventStart (decode rx tbl log) = decode_event_start log"
  by (simp add: decode_def EventStart_decode_chat EventStart_decode_roles EventStart_decode_teams
      EventStart_decode_kits EventStart_decode_player_kill EventStart_decode_event_start)

text \<open>One line, no event, one event, several events.\<close>

lemma decode_event_start_examples:
  "decode_event_start ''[event] assets/prefabs/npc/ch47/ch47scientists.entity.prefab'' = []"
  "decode_event_start ''[event] assets/bundled/prefabs/world/event_cargoheli.prefab''
   = [EventStart ''Chinook'' False]"
  "decode_event_start ''[event] event_airdrop event_cargoship event_xmas''
   = [EventStart ''Airdrop'' False, EventStart ''Cargo Ship'' False,
      EventStart ''Christmas'' True]"
  "decode_event_start ''event_airdrop'' = []"
  by (simp_all add: decode_event_start_def EVENTS_def startsWith_def)

text \<open>
  Claim C8. A live line whose content begins with \<open>[event]\<close> is checked against every
  entry of \<open>EVENTS\<close>: the timed-event starts that the line emits are, in the order of
  the table, one for each entry whose key the line includes: none, one or several,
  with no exit after the first. The command-start pattern is a parameter, so the line
  is taken not to be a command start that stamps an in-flight command; such a line
  ends at the stamping.
\<close>

theorem event_start_fan_out:
  assumes "re_Log rx data = Some (date, content)"
    and "startsWith (trim content) ''[event]''"
    and "snd (command_executing rx ident date (trim content)
                (emit ident (Message (trim content)) w)) = None"
  shows "filter is_EventStart (new_events w (fst (handle_data rx tbl ident (w, cur) data)))
         = map (\<lambda>(key, name, special). EventStart name special)
             (filter (\<lambda>(key, name, special). str_includes (trim content) key) EVENTS)"
proof -
  have ne: "trim content \<noteq> []"
    using assms(2) by (auto simp: startsWith_def)
  have "filter is_EventStart (new_events w (fst (handle_data rx tbl ident (w, cur) data)))
        = decode_event_start (trim content)"
    using ne
    by (simp add: handle_data_def assms(1) Let_def new_events_handle_log [OF assms(3)]
        EventStart_decode is_EventStart_def split: option.splits)
  also have "\<dots> = map (\<lambda>(key, name, special). EventStart name special)
             (filter (\<lambda>(key, name, special). str_includes (trim content) key) EVENTS)"
    using assms(2) by (simp add: decode_event_start_def concat_map_if)
  finally show ?thesis .
qed

lemmas string_defs = split_def trim_def isWhiteSpace_def startsWith_def

theorem event_start_fan_out_witness:
  "filter is_EventStart
     (new_events example_world
        (fst (handle_data example_patterns example_playerKillData ''eu1'' (example_world, None)
                ''12:00:01:LOG:[event] event_airdrop event_cargoship'')))
   = [EventStart ''Airdrop'' False, EventStart ''Cargo Ship'' False]"
proof -
  have h1: "re_Log example_patterns ''12:00:01:LOG:[event] event_airdrop event_cargoship''
            = Some (''12:00:01'', ''[event] event_airdrop event_cargoship'')"
    by (simp add: example_patterns_def string_defs)
  have tr: "trim ''[event] event_airdrop event_cargoship''
            = ''[event] event_airdrop event_cargoship''"
    by (simp add: string_defs)
  have h2: "startsWith (trim ''[event] event_airdrop event_cargoship'') ''[event]''"
    by (simp add: tr startsWith_def)
  have h3: "snd (command_executing example_patterns ''eu1'' ''12:00:01''
                   (trim ''[event] event_airdrop event_cargoship'')
                   (emit ''eu1'' (Message (trim ''[event] event_airdrop event_cargoship''))
                      example_world)) = None"
    by (simp add: tr command_executing_def example_patterns_def)
  show ?thesis
    using event_start_fan_out [OF h1 h2 h3, of example_playerKillData None]
    by (simp add: tr EVENTS_def)
qed

lemma split_aux_not_empty: "split_aux sep k acc s \<noteq> []"
  by (induction s arbitrary: k acc) auto

lemma split_aux_two_pieces:
  "str_includes s sep \<Longrightarrow> sep \<noteq> [] \<Longrightarrow> 2 \<le> length (split_aux sep 0 acc s)"
proof (induction s arbitrary: acc)
  case Nil
  then show ?case by simp
next
  case (Cons c cs)
  show ?case
  proof (cases "prefix sep (c # cs)")
    case True
    have "1 \<le> length (split_aux sep (length sep - 1) [] cs)"
      using split_aux_not_empty [of sep "length sep - 1" "[]" cs]
      by (cases "split_aux sep (length sep - 1) [] cs") auto
    then show ?thesis using True by simp
  next
    case False
    then have "str_includes cs sep" using Cons.prems(1) by simp
    then show ?thesis using False Cons.IH [of "c # acc"] Cons.prems(2) by simp
  qed
qed

text \<open>A string that includes the separator splits into at least two pieces.\<close>

lemma split_two_pieces:
  "str_includes s sep \<Longrightarrow> sep \<noteq> [] \<Longrightarrow> 2 \<le> length (split s sep)"
  unfolding split_def by (rule split_aux_two_pieces)

lemma PlayerKill_decode_chat: "filter is_PlayerKill (decode_chat rx log) = []"
  by (auto simp: decode_chat_def is_PlayerKill_def split: option.splits)

lemma PlayerKill_decode_roles: "filter is_PlayerKill (decode_roles rx log) = []"
  by (cases "str_includes log ''Added''"; cases "str_includes log ''Removed''")
     (auto simp: decode_roles_def is_PlayerKill_def Let_def split: option.splits)

lemma PlayerKill_decode_teams: "filter is_PlayerKill (decode_teams rx log) = []"
  by (auto simp: decode_teams_def is_PlayerKill_def split: option.splits)

lemma PlayerKill_decode_kits: "filter is_PlayerKill (decode_kits rx log) = []"
  by (auto simp: decode_kits_def is_PlayerKill_def split: option.splits)

lemma PlayerKill_decode_event_start: "filter is_PlayerKill (decode_event_start log) = []"
proof -
  have "\<forall>e \<in> set (decode_event_start log). \<not> is_PlayerKill e"
    by (auto simp: decode_event_start_def is_PlayerKill_def split: if_splits)
  then show ?thesis by (simp add: filter_empty_conv)
qed

lemma decode_player_kill_pieces:
  assumes "str_includes log '' was killed by ''"
  shows "decode_player_kill tbl log
         = [PlayerKill (getKill tbl (trim (split log '' was killed by '' ! 0)))
                       (getKill tbl (trim (split log '' was killed by '' ! 1)))]"
proof -
  have "2 \<le> length (split log '' was killed by '')"
    using assms by (intro split_two_pieces) simp_all
  then obtain a b r where "split log '' was killed by '' = a # b # r"
    by (cases "split log '' was killed by ''"; cases "tl (split log '' was killed by '')") auto
  then show ?thesis using assms by (simp add: decode_player_kill_def)
qed

lemma PlayerKill_decode:
  assumes "str_includes log '' was killed by ''"
  shows "filter is_PlayerKill (decode rx tbl log)
         = [PlayerKill (getKill tbl (trim (split log '' was killed by '' ! 0)))
                       (getKill tbl (trim (split log '' was killed by '' ! 1)))]"
  by (simp add: decode_def PlayerKill_decode_chat PlayerKill_decode_roles PlayerKill_decode_teams
      PlayerKill_decode_kits PlayerKill_decode_event_start decode_player_kill_pieces [OF assms]
      is_PlayerKill_def)

lemma getKill_PlayerName: 
  "find (\<lambda>e. entry_id e = ''playername'') tbl = None \<Longrightarrow>
   getKill tbl ''PlayerName'' = \<lparr>pk_id = ''PlayerName'', pk_name = ''PlayerName'', pk_type = Player\<rparr>"
proof -
  have l: "toLowerCase ''PlayerName'' = ''playername''"
    by (simp add: toLowerCase_def toLowerCase_char_def)
  have n: "Number_class ''PlayerName'' = IsNaN"
    by (simp add: number_defs)
  show "find (\<lambda>e. entry_id e = ''playername'') tbl = None \<Longrightarrow> ?thesis"
    by (simp add: getKill_def l n Number_truthy_def)
qed

lemma getKill_12345: 
  "find (\<lambda>e. entry_id e = ''12345'') tbl = None \<Longrightarrow>
   getKill tbl ''12345'' = \<lparr>pk_id = ''12345'', pk_name = ''Scientist'', pk_type = Npc\<rparr>"
proof -
  have l: "toLowerCase ''12345'' = ''12345''"
    by (simp add: toLowerCase_def toLowerCase_char_def)
  have n: "Number_class ''12345'' = NonZero"
    by (simp add: number_defs)
  show "find (\<lambda>e. entry_id e = ''12345'') tbl = None \<Longrightarrow> ?thesis"
    by (simp add: getKill_def l n Number_truthy_def)
qed

text \<open>
  Claim C7. For a live line whose content includes the separator \<open>was killed by\<close> (and
  that is not a command start that stamps an in-flight command), the handler emits one
  player-kill event; its victim and its killer are the first two pieces of the split,
  trimmed, each resolved by \<open>getKill\<close> on its own. \<open>getKill\<close> looks the lower-cased
  identifier up in the table first, then tests \<^verbatim>\<open>Number(ign)\<close>, then takes the
  identifier as a player's name; an identifier of decimal digits passes the test
  exactly when one of its digits is not \<open>0\<close>. For the content \<open>PlayerName was killed by 12345\<close>,
  with a table that has no entry for \<open>playername\<close> or \<open>12345\<close>, the victim is a player
  and the killer the NPC named Scientist.
\<close>

theorem player_kill_classification:
  assumes "re_Log rx data = Some (date, content)"
    and "str_includes (trim content) '' was killed by ''"
    and "snd (command_executing rx ident date (trim content)
                (emit ident (Message (trim content)) w)) = None"
  shows "filter is_PlayerKill (new_events w (fst (handle_data rx tbl ident (w, cur) data)))
         = [PlayerKill (getKill tbl (trim (split (trim content) '' was killed by '' ! 0)))
                       (getKill tbl (trim (split (trim content) '' was killed by '' ! 1)))]
       \<and> 2 \<le> length (split (trim content) '' was killed by '')
       \<and> (\<forall>d. find (\<lambda>e. entry_id e = toLowerCase s) tbl = Some d \<longrightarrow>
              getKill tbl s = \<lparr>pk_id = s, pk_name = entry_name d, pk_type = entry_type d\<rparr>)
       \<and> (find (\<lambda>e. entry_id e = toLowerCase s) tbl = None \<and> Number_truthy s \<longrightarrow>
              getKill tbl s = \<lparr>pk_id = s, pk_name = ''Scientist'', pk_type = Npc\<rparr>)
       \<and> (find (\<lambda>e. entry_id e = toLowerCase s) tbl = None \<and> \<not> Number_truthy s \<longrightarrow>
              getKill tbl s = \<lparr>pk_id = s, pk_name = s, pk_type = Player\<rparr>)
       \<and> (s \<noteq> [] \<and> list_all isDecimalDigit s \<longrightarrow>
              Number_truthy s = (\<not> list_all (\<lambda>c. c = CHR ''0'') s))
       \<and> (trim content = ''PlayerName was killed by 12345''
            \<and> find (\<lambda>e. entry_id e = ''playername'') tbl = None
            \<and> find (\<lambda>e. entry_id e = ''12345'') tbl = None \<longrightarrow>
              filter is_PlayerKill (new_events w (fst (handle_data rx tbl ident (w, cur) data)))
              = [PlayerKill
                   \<lparr>pk_id = ''PlayerName'', pk_name = ''PlayerName'', pk_type = Player\<rparr>
                   \<lparr>pk_id = ''12345'', pk_name = ''Scientist'', pk_type = Npc\<rparr>])"
proof -
  have ne: "trim content \<noteq> []"
    using assms(2) by auto
  have ev: "filter is_PlayerKill (new_events w (fst (handle_data rx tbl ident (w, cur) data)))
        = [PlayerKill (getKill tbl (trim (split (trim content) '' was killed by '' ! 0)))
                      (getKill tbl (trim (split (trim content) '' was killed by '' ! 1)))]"
    using ne
    by (simp add: handle_data_def assms(1) Let_def new_events_handle_log [OF assms(3)]
        PlayerKill_decode [OF assms(2)] is_PlayerKill_def split: option.splits)
  have two: "2 \<le> length (split (trim content) '' was killed by '')"
    using assms(2) by (intro split_two_pieces) simp_all
  have sp: "split ''PlayerName was killed by 12345'' '' was killed by ''
            = [''PlayerName'', ''12345'']"
    by (simp add: split_def)
  have tv: "trim ''PlayerName'' = ''PlayerName''" and tk: "trim ''12345'' = ''12345''"
    by (simp_all add: trim_def isWhiteSpace_def)
  have ex: "filter is_PlayerKill (new_events w (fst (handle_data rx tbl ident (w, cur) data)))
              = [PlayerKill
                   \<lparr>pk_id = ''PlayerName'', pk_name = ''PlayerName'', pk_type = Player\<rparr>
                   \<lparr>pk_id = ''12345'', pk_name = ''Scientist'', pk_type = Npc\<rparr>]"
    if "trim content = ''PlayerName was killed by 12345''"
      and "find (\<lambda>e. entry_id e = ''playername'') tbl = None"
      and "find (\<lambda>e. entry_id e = ''12345'') tbl = None"
    unfolding ev that(1) sp
    by (simp add: tv tk getKill_PlayerName [OF that(2)] getKill_12345 [OF that(3)])
  have g: "getKill tbl s =
      (case find (\<lambda>e. entry_id e = toLowerCase s) tbl of
         Some d \<Rightarrow> \<lparr>pk_id = s, pk_name = entry_name d, pk_type = entry_type d\<rparr>
       | None \<Rightarrow> if Number_truthy s then \<lparr>pk_id = s, pk_name = ''Scientist'', pk_type = Npc\<rparr>
                 else \<lparr>pk_id = s, pk_name = s, pk_type = Player\<rparr>)"
    by (simp add: getKill_def)
  have n: "Number_truthy s = (\<not> list_all (\<lambda>c. c = CHR ''0'') s)"
    if "s \<noteq> []" and "list_all isDecimalDigit s"
    using Number_class_digits [OF that] by (simp add: Number_truthy_def)
  show ?thesis
    using ev two ex n by (simp add: g)
qed

theorem player_kill_classification_witness:
  "filter is_PlayerKill
     (new_events example_world
        (fst (handle_data example_patterns example_playerKillData ''eu1'' (example_world, None)
                ''12:00:01:LOG:PlayerName was killed by 12345 '')))
   = [PlayerKill \<lparr>pk_id = ''PlayerName'', pk_name = ''PlayerName'', pk_type = Player\<rparr>
                 \<lparr>pk_id = ''12345'', pk_name = ''Scientist'', pk_type = Npc\<rparr>]"
proof -
  have h1: "re_Log example_patterns ''12:00:01:LOG:PlayerName was killed by 12345 ''
            = Some (''12:00:01'', ''PlayerName was killed by 12345 '')"
    by (simp add: example_patterns_def string_defs)
  have tr: "trim ''PlayerName was killed by 12345 '' = ''PlayerName was killed by 12345''"
    by (simp add: string_defs)
  have h2: "str_includes (trim ''PlayerName was killed by 12345 '') '' was killed by ''"
    by (simp add: tr)
  have h3: "snd (command_executing example_patterns ''eu1'' ''12:00:01''
                   (trim ''PlayerName was killed by 12345 '')
                   (emit ''eu1'' (Message (trim ''PlayerName was killed by 12345 ''))
                      example_world)) = None"
    by (simp add: tr command_executing_def example_patterns_def)
  have t1: "find (\<lambda>e. entry_id e = ''playername'') example_playerKillData = None"
    and t2: "find (\<lambda>e. entry_id e = ''12345'') example_playerKillData = None"
    by (simp_all add: example_playerKillData_def)
  note c = player_kill_classification [OF h1 h2 h3, where tbl = example_playerKillData
      and cur = None and s = "''12345''"]
  show ?thesis
    using c [THEN conjunct2, THEN conjunct2, THEN conjunct2, THEN conjunct2, THEN conjunct2,
        THEN conjunct2]
      tr t1 t2
    by simp
qed

text \<open>
  Claim C5. The first batch delivered for a session finds the flag \<open>INIT_LOGS\<close> not
  set. Whatever its content, the call then emits no event, leaves the registry, the
  promises and the timers as they are, and only appends the flag to the server's flags
  and stores the server. The server that the call leaves has the flag, so every later
  batch for it is processed line by line as live lines.
\<close>

theorem first_batch_only_sets_flag:
  assumes "\<not> (''INIT_LOGS'' \<in> set (flags server))"
  shows "handle rx tbl message server w
         = (server\<lparr>flags := flags server @ [''INIT_LOGS'']\<rparr>,
            w\<lparr>servers := (servers w)(server_identifier server \<mapsto>
                             server\<lparr>flags := flags server @ [''INIT_LOGS'']\<rparr>)\<rparr>)
       \<and> new_events w (snd (handle rx tbl message server w)) = []
       \<and> emitted (snd (handle rx tbl message server w)) = emitted w
       \<and> commands (snd (handle rx tbl message server w)) = commands w
       \<and> promises (snd (handle rx tbl message server w)) = promises w
       \<and> timers (snd (handle rx tbl message server w)) = timers w
       \<and> handle rx tbl (Some later) (fst (handle rx tbl message server w)) w'
         = (fst (handle rx tbl message server w),
            fst (foldl (handle_data rx tbl (server_identifier server)) (w', None)
                   (filter (\<lambda>e. e \<noteq> []) (split later [CHR 0x0A]))))"
proof -
  have first: "handle rx tbl message server w
         = (server\<lparr>flags := flags server @ [''INIT_LOGS'']\<rparr>,
            w\<lparr>servers := (servers w)(server_identifier server \<mapsto>
                             server\<lparr>flags := flags server @ [''INIT_LOGS'']\<rparr>)\<rparr>)"
    using assms by (simp add: handle_def Let_def update_def)
  have later: "handle rx tbl (Some later) (server\<lparr>flags := flags server @ [''INIT_LOGS'']\<rparr>) w'
         = (server\<lparr>flags := flags server @ [''INIT_LOGS'']\<rparr>,
            fst (foldl (handle_data rx tbl (server_identifier server)) (w', None)
                   (filter (\<lambda>e. e \<noteq> []) (split later [CHR 0x0A]))))"
    by (simp add: handle_def Let_def)
  show ?thesis
    unfolding first by (simp add: later new_events_def)
qed

theorem first_batch_only_sets_flag_witness:
  "\<not> (''INIT_LOGS'' \<in> set (flags example_server))
   \<and> new_events example_world
       (snd (handle example_patterns example_playerKillData
               (Some ''12:00:01:LOG:PlayerName was killed by 12345'') example_server
               example_world)) = []
   \<and> flags (fst (handle example_patterns example_playerKillData
               (Some ''12:00:01:LOG:PlayerName was killed by 12345'') example_server
               (example_world :: string world)))
     = [''INIT_LOGS'']"
proof -
  have h: "\<not> (''INIT_LOGS'' \<in> set (flags example_server))"
    by (simp add: example_server_def)
  note c = first_batch_only_sets_flag [OF h, where rx = example_patterns
      and tbl = example_playerKillData
      and message = "Some ''12:00:01:LOG:PlayerName was killed by 12345''"
      and w = example_world and w' = example_world and later = "[]"]
  have f: "flags (fst (handle example_patterns example_playerKillData
               (Some ''12:00:01:LOG:PlayerName was killed by 12345'') example_server
               (example_world :: string world)))
           = flags example_server @ [''INIT_LOGS'']"
    using c [THEN conjunct1] by simp
  have fl: "flags example_server = []"
    by (simp add: example_server_def)
  show ?thesis
    using h c [THEN conjunct2, THEN conjunct1] f by (simp add: fl)
qed

section \<open>Properties of the command-response matching\<close>

lemma find_Some_holds: "find P xs = Some x \<Longrightarrow> P x \<and> x \<in> set xs"
  by (induction xs) (auto split: if_splits)

lemma get_after_remove:
  "CommandHandler_get (CommandHandler_remove cmds (Some c)) (req_identifier c) (req_command c)
   = None"
  by (simp add: CommandHandler_get_def CommandHandler_remove_def find_None_iff)

lemma state_emit:
  "commands (emit ident ev w) = commands w" "promises (emit ident ev w) = promises w"
  "timers (emit ident ev w) = timers w"
  by (simp_all add: emit_def)

lemma state_emit_all:
  "commands (emit_all ident evs w) = commands w \<and> promises (emit_all ident evs w) = promises w
   \<and> timers (emit_all ident evs w) = timers w"
  unfolding emit_all_def by (induction evs arbitrary: w) (simp_all add: state_emit)

lemma state_command_executing_None:
  assumes "command_executing rx ident date log w = (w1, None)"
  shows "commands w1 = commands w \<and> promises w1 = promises w \<and> timers w1 = timers w"
  using assms
  by (auto simp: command_executing_def Let_def emit_def split: option.splits if_splits)

lemma state_settle:
  "commands (settle p v w) = commands w" "timers (settle p v w) = timers w"
  by (simp_all add: settle_def)

lemma promises_settle_cong:
  "promises w1 = promises w \<Longrightarrow> promises (settle p v w1) = promises (settle p v w)"
  by (simp add: settle_def)

lemma state_clearTimeout:
  "commands (clearTimeout h w) = commands w" "promises (clearTimeout h w) = promises w"
  "timers (clearTimeout h w) = filter (\<lambda>tm. Some (timer_id tm) \<noteq> h) (timers w)"
  by (cases h; simp add: clearTimeout_def)+

lemma ended_resolve_command:
  assumes "commands w2 = commands (resolve_command c log w1)"
    and "promises w2 = promises (resolve_command c log w1)"
    and "timers w2 = timers (resolve_command c log w1)"
    and "commands w1 = commands w" "promises w1 = promises w" "timers w1 = timers w"
  shows "ended c log w w2"
proof -
  have p: "promises (resolve_command c log w1)
           = promises (settle (resolve c) \<lparr>ok = True, response = Some log, error = None\<rparr> w)"
    by (simp add: resolve_command_def Let_def state_clearTimeout
        promises_settle_cong [OF assms(5)])
  have t: "timers (resolve_command c log w1)
           = filter (\<lambda>tm. Some (timer_id tm) \<noteq> timeout c) (timers w)"
    by (simp add: resolve_command_def Let_def state_clearTimeout state_settle assms(6))
  have k: "commands (resolve_command c log w1) = CommandHandler_remove (commands w) (Some c)"
    by (simp add: resolve_command_def Let_def state_clearTimeout state_settle assms(4))
  show ?thesis
    unfolding ended_def assms(1,2,3) p t k
    using get_after_remove [of "commands w" c]
    by (simp add: CommandHandler_remove_def)
qed

lemma command_response_queued:
  assumes "CommandHandler_getQueued (commands w1) ident date = Some c"
    and "\<not> startsWith log ''[ SAVE ]''"
  shows "command_response ident date log (w1, cur) = (resolve_command c log w1, cur)"
  using assms by (simp add: command_response_def)

lemma command_response_current:
  assumes "CommandHandler_getQueued (commands w1) ident date = None \<or> startsWith log ''[ SAVE ]''"
    and "cur = Some x" and "x \<noteq> []"
    and "CommandHandler_get (commands w1) ident x = Some c"
  shows "command_response ident date log (w1, cur) = (resolve_command c log w1, None)"
  using assms
  by (auto simp: command_response_def command_response_other_def split: option.splits)

lemma command_response_nothing:
  assumes "CommandHandler_getQueued (commands w1) ident date = None \<or> startsWith log ''[ SAVE ]''"
    and "\<forall>x. cur = Some x \<and> x \<noteq> [] \<longrightarrow> CommandHandler_get (commands w1) ident x = None"
  shows "command_response ident date log (w1, cur) = (w1, cur)"
  using assms
  by (auto simp: command_response_def command_response_other_def split: option.splits)

lemma handle_log_not_stamping:
  assumes "command_executing rx ident date log (emit ident (Message log) w) = (w1, None)"
  shows "handle_log rx tbl ident date log (w, cur)
         = (emit_all ident (decode rx tbl log) (fst (command_response ident date log (w1, cur))),
            snd (command_response ident date log (w1, cur)))"
  by (simp add: handle_log_def assms split: prod.splits)
lemmas example_line_defs = handle_data_def handle_log_def command_executing_def
  command_response_def command_response_other_def resolve_command_def example_patterns_def
  split_def trim_def isWhiteSpace_def startsWith_def emit_def emit_all_def truthy_def
  CommandHandler_get_def CommandHandler_getQueued_def CommandHandler_add_def
  CommandHandler_remove_def set_timestamp_def same_key_def settle_def clearTimeout_def
  decode_def decode_chat_def decode_roles_def decode_teams_def decode_kits_def
  decode_event_start_def decode_player_kill_def Let_def

lemma example_dispatched_begin:
  "command_begin (Some ''token'') ''eu1'' ''status'' example_world = Inr (0, example_dispatched)"
  by (simp add: command_begin_def truthy_def get_def example_world_def example_server_def
      example_dispatched_def CommandHandler_add_def CommandHandler_get_def Let_def)

lemma example_after_two_lines_value:
  "example_after_two_lines
   = (example_world\<lparr>promises := [Some \<lparr>ok = True, response = Some ''players: 3'', error = None\<rparr>],
        commands := [],
        emitted := [(''eu1'', Message ''Executing console system command status''),
                    (''eu1'', ExecutingCommand ''status''),
                    (''eu1'', Message ''players: 3'')]\<rparr>,
      Some ''status'')"
  by (simp add: example_after_two_lines_def example_dispatched_def example_world_def
      example_line_defs)

lemma example_after_three_lines_value:
  "example_after_three_lines
   = (example_world\<lparr>promises := [Some \<lparr>ok = True, response = Some ''players: 3'', error = None\<rparr>],
        commands := [],
        emitted := [(''eu1'', Message ''Executing console system command status''),
                    (''eu1'', ExecutingCommand ''status''),
                    (''eu1'', Message ''players: 3''),
                    (''eu1'', Message ''hello'')]\<rparr>,
      Some ''status'')"
  by (simp add: example_after_three_lines_def example_after_two_lines_value example_world_def
      example_line_defs)

lemma example_stamped_value:
  "handle_data example_patterns example_playerKillData ''eu1'' (example_dispatched, None)
     ''12:00:01:LOG:Executing console system command status''
   = (example_stamped, Some ''status'')"
  by (simp add: example_stamped_def example_stamped_command_def example_dispatched_def
      example_world_def example_line_defs)
text \<open>
  Claim C1, as the code has it. A line that is a command start and stamps an in-flight
  command ends there: it is no response, and its command becomes the open command.
  For every other live line the response is matched in this order. If an in-flight
  command of the session has the line's timestamp and the line does not start with
  \<open>[ SAVE ]\<close>, that command is resolved with the line's content, its timeout is
  cleared, it leaves the registry, and the open command stays as it was. Otherwise, if
  an open command is remembered and is still in the registry, that command is ended in
  the same way with this line's content and the open command is cleared. Otherwise
  nothing is resolved and the open command stays as it was.
\<close>

theorem command_response_priority:
  "(command_executing rx ident date log (emit ident (Message log) w) = (w1, Some cmd) \<longrightarrow>
      handle_log rx tbl ident date log (w, cur) = (w1, Some cmd))
   \<and> (command_executing rx ident date log (emit ident (Message log) w) = (w1, None) \<longrightarrow>
        (\<forall>c. CommandHandler_getQueued (commands w) ident date = Some c
               \<and> \<not> startsWith log ''[ SAVE ]'' \<longrightarrow>
             ended c log w (fst (handle_log rx tbl ident date log (w, cur)))
             \<and> snd (handle_log rx tbl ident date log (w, cur)) = cur
             \<and> req_identifier c = ident \<and> timestamp c = Some date)
      \<and> (\<forall>x c. (CommandHandler_getQueued (commands w) ident date = None
                  \<or> startsWith log ''[ SAVE ]'')
                 \<and> cur = Some x \<and> x \<noteq> []
                 \<and> CommandHandler_get (commands w) ident x = Some c \<longrightarrow>
             ended c log w (fst (handle_log rx tbl ident date log (w, cur)))
             \<and> snd (handle_log rx tbl ident date log (w, cur)) = None
             \<and> req_identifier c = ident \<and> req_command c = x)
      \<and> ((CommandHandler_getQueued (commands w) ident date = None
             \<or> startsWith log ''[ SAVE ]'')
           \<and> (\<forall>x. cur = Some x \<and> x \<noteq> [] \<longrightarrow> CommandHandler_get (commands w) ident x = None) \<longrightarrow>
             commands (fst (handle_log rx tbl ident date log (w, cur))) = commands w
             \<and> promises (fst (handle_log rx tbl ident date log (w, cur))) = promises w
             \<and> timers (fst (handle_log rx tbl ident date log (w, cur))) = timers w
             \<and> snd (handle_log rx tbl ident date log (w, cur)) = cur))"
proof (intro conjI impI)
  assume "command_executing rx ident date log (emit ident (Message log) w) = (w1, Some cmd)"
  then show "handle_log rx tbl ident date log (w, cur) = (w1, Some cmd)"
    by (simp add: handle_log_def)
next
  assume e: "command_executing rx ident date log (emit ident (Message log) w) = (w1, None)"
  have s1: "commands w1 = commands w" "promises w1 = promises w" "timers w1 = timers w"
    using state_command_executing_None [OF e] by (simp_all add: state_emit)
  note h = handle_log_not_stamping [OF e, of tbl cur]
  show "\<forall>c. CommandHandler_getQueued (commands w) ident date = Some c
               \<and> \<not> startsWith log ''[ SAVE ]'' \<longrightarrow>
             ended c log w (fst (handle_log rx tbl ident date log (w, cur)))
             \<and> snd (handle_log rx tbl ident date log (w, cur)) = cur
             \<and> req_identifier c = ident \<and> timestamp c = Some date"
  proof (intro allI impI)
    fix c
    assume a: "CommandHandler_getQueued (commands w) ident date = Some c
               \<and> \<not> startsWith log ''[ SAVE ]''"
    have r: "command_response ident date log (w1, cur) = (resolve_command c log w1, cur)"
      using a by (intro command_response_queued) (simp_all add: s1)
    have "ended c log w (emit_all ident (decode rx tbl log) (resolve_command c log w1))"
      by (rule ended_resolve_command [where ?w1.0 = w1]) (simp_all add: state_emit_all s1)
    moreover have "req_identifier c = ident \<and> timestamp c = Some date"
      using a find_Some_holds
          [of "\<lambda>c. req_identifier c = ident \<and> timestamp c = Some date" "commands w" c]
      by (simp add: CommandHandler_getQueued_def)
    ultimately show "ended c log w (fst (handle_log rx tbl ident date log (w, cur)))
             \<and> snd (handle_log rx tbl ident date log (w, cur)) = cur
             \<and> req_identifier c = ident \<and> timestamp c = Some date"
      by (simp add: h r)
  qed
  show "\<forall>x c. (CommandHandler_getQueued (commands w) ident date = None
                  \<or> startsWith log ''[ SAVE ]'')
                 \<and> cur = Some x \<and> x \<noteq> []
                 \<and> CommandHandler_get (commands w) ident x = Some c \<longrightarrow>
             ended c log w (fst (handle_log rx tbl ident date log (w, cur)))
             \<and> snd (handle_log rx tbl ident date log (w, cur)) = None
             \<and> req_identifier c = ident \<and> req_command c = x"
  proof (intro allI impI)
    fix x c
    assume a: "(CommandHandler_getQueued (commands w) ident date = None
                  \<or> startsWith log ''[ SAVE ]'')
                 \<and> cur = Some x \<and> x \<noteq> []
                 \<and> CommandHandler_get (commands w) ident x = Some c"
    have r: "command_response ident date log (w1, cur) = (resolve_command c log w1, None)"
      using a by (intro command_response_current [where x = x]) (simp_all add: s1)
    have "ended c log w (emit_all ident (decode rx tbl log) (resolve_command c log w1))"
      by (rule ended_resolve_command [where ?w1.0 = w1]) (simp_all add: state_emit_all s1)
    moreover have "req_identifier c = ident \<and> req_command c = x"
      using a find_Some_holds [of "same_key ident x" "commands w" c]
      by (simp add: CommandHandler_get_def same_key_def)
    ultimately show "ended c log w (fst (handle_log rx tbl ident date log (w, cur)))
             \<and> snd (handle_log rx tbl ident date log (w, cur)) = None
             \<and> req_identifier c = ident \<and> req_command c = x"
      by (simp add: h r)
  qed
  assume a: "(CommandHandler_getQueued (commands w) ident date = None
             \<or> startsWith log ''[ SAVE ]'')
           \<and> (\<forall>x. cur = Some x \<and> x \<noteq> [] \<longrightarrow> CommandHandler_get (commands w) ident x = None)"
  have r: "command_response ident date log (w1, cur) = (w1, cur)"
    using a by (intro command_response_nothing) (simp_all add: s1)
  show "commands (fst (handle_log rx tbl ident date log (w, cur))) = commands w"
    "promises (fst (handle_log rx tbl ident date log (w, cur))) = promises w"
    "timers (fst (handle_log rx tbl ident date log (w, cur))) = timers w"
    "snd (handle_log rx tbl ident date log (w, cur)) = cur"
    by (simp_all add: h r state_emit_all s1)
qed
theorem command_response_priority_witness:
  "command_executing example_patterns ''eu1'' ''12:00:02'' ''players: 3''
     (emit ''eu1'' (Message ''players: 3'') example_stamped)
   = (emit ''eu1'' (Message ''players: 3'') example_stamped, None)
   \<and> CommandHandler_getQueued (commands example_stamped) ''eu1'' ''12:00:02'' = None
   \<and> CommandHandler_get (commands example_stamped) ''eu1'' ''status''
     = Some example_stamped_command
   \<and> ended example_stamped_command ''players: 3'' example_stamped
       (fst (handle_log example_patterns example_playerKillData ''eu1'' ''12:00:02''
               ''players: 3'' (example_stamped, Some ''status'')))
   \<and> snd (handle_log example_patterns example_playerKillData ''eu1'' ''12:00:02''
            ''players: 3'' (example_stamped, Some ''status'')) = None"
proof -
  have e: "command_executing example_patterns ''eu1'' ''12:00:02'' ''players: 3''
             (emit ''eu1'' (Message ''players: 3'') example_stamped)
           = (emit ''eu1'' (Message ''players: 3'') example_stamped, None)"
    by (simp add: command_executing_def example_patterns_def)
  have q: "CommandHandler_getQueued (commands example_stamped) ''eu1'' ''12:00:02'' = None"
    by (simp add: CommandHandler_getQueued_def example_stamped_def example_stamped_command_def)
  have g: "CommandHandler_get (commands example_stamped) ''eu1'' ''status''
           = Some example_stamped_command"
    by (simp add: CommandHandler_get_def same_key_def example_stamped_def
        example_stamped_command_def)
  note b = command_response_priority [where rx = example_patterns and ident = "''eu1''"
      and date = "''12:00:02''" and log = "''players: 3''" and w = example_stamped
      and ?w1.0 = "emit ''eu1'' (Message ''players: 3'') example_stamped"
      and tbl = example_playerKillData and cur = "Some ''status''",
      THEN conjunct2, THEN mp, OF e, THEN conjunct2, THEN conjunct1, rule_format,
      of "''status''" example_stamped_command]
  show ?thesis
    using e q g b by simp
qed

text \<open>
  Claim C1 as stated fails on the third line of the example batch. The first line
  stamps the command \<open>status\<close> and makes it the open command; the second has the
  stamped timestamp and resolves it. Before the third line the open command is still
  remembered and no in-flight command has the line's timestamp, yet the line resolves
  nothing with its content \<open>hello\<close> and the open command is not cleared.
\<close>

theorem open_command_gone_counterexample:
  "snd example_after_two_lines = Some ''status''
   \<and> CommandHandler_getQueued (commands (fst example_after_two_lines)) ''eu1'' ''12:00:02''
     = None
   \<and> re_Log example_patterns ''12:00:02:LOG:hello'' = Some (''12:00:02'', ''hello'')
   \<and> snd example_after_three_lines = Some ''status''
   \<and> snd example_after_three_lines \<noteq> None
   \<and> promises (fst example_after_three_lines)
     = [Some \<lparr>ok = True, response = Some ''players: 3'', error = None\<rparr>]
   \<and> promises (fst example_after_three_lines) = promises (fst example_after_two_lines)"
  by (simp add: example_after_two_lines_value example_after_three_lines_value
      CommandHandler_getQueued_def example_patterns_def split_def)

section \<open>Properties of the command dispatch\<close>

lemma command_begin_Inr:
  assumes "command_begin token ident command w = Inr (p, w1)"
  shows "p = length (promises w)" "promises w1 = promises w @ [None]"
    "timers w1 = timers w" "next_timer w1 = next_timer w" "clock w1 = clock w"
    "commands w1 = CommandHandler_add (commands w)
       \<lparr>req_identifier = ident, req_command = command, timestamp = None,
        resolve = length (promises w), timeout = None\<rparr>"
  using assms
  by (auto simp: command_begin_def Let_def split: if_splits option.splits)

lemma get_after_remove_by_key:
  "CommandHandler_get (commands (remove_by_key ident command w)) ident command = None"
proof (cases "CommandHandler_get (commands w) ident command")
  case None
  then show ?thesis by (simp add: remove_by_key_def CommandHandler_remove_def)
next
  case (Some c)
  then have "same_key ident command c"
    using find_Some_holds [of "same_key ident command" "commands w" c]
    by (simp add: CommandHandler_get_def)
  then have k: "req_identifier c = ident" "req_command c = command"
    by (simp_all add: same_key_def)
  show ?thesis
    using get_after_remove [of "commands w" c] by (simp add: remove_by_key_def Some k)
qed

lemma state_remove_by_key:
  "promises (remove_by_key ident command w) = promises w"
  "timers (remove_by_key ident command w) = timers w"
  "next_timer (remove_by_key ident command w) = next_timer w"
  by (simp_all add: remove_by_key_def)

lemma promises_settle_pending:
  "p < length (promises w) \<Longrightarrow> promises w ! p = None \<Longrightarrow>
   promises (settle p v w) = (promises w)[p := Some v]"
  by (simp add: settle_def)

lemma promises_settle_settled:
  "promises w ! p = Some v \<Longrightarrow> promises (settle q u w) ! p = Some v"
  by (cases "p = q") (auto simp: settle_def)


lemma next_timer_settle: "next_timer (settle p v w) = next_timer w"
  by (simp add: settle_def)

lemma fail_settled:
  assumes "promises w ! p = Some v" and "CommandHandler_get (commands w) ident command = None"
  shows "promises (settle p u (remove_by_key ident command w)) ! p = Some v"
    and "CommandHandler_get (commands (settle p u (remove_by_key ident command w)))
           ident command = None"
    and "timers (settle p u (remove_by_key ident command w)) = timers w"
    and "next_timer (settle p u (remove_by_key ident command w)) = next_timer w"
  using assms
  by (simp_all add: promises_settle_settled state_remove_by_key state_settle
      get_after_remove_by_key next_timer_settle)
lemma promises_fire_settled:
  "promises w ! p = Some v \<Longrightarrow> promises (fire tm w) ! p = Some v"
  by (cases "action tm")
     (simp add: fire_def promises_settle_settled state_remove_by_key)

lemma promises_foldl_fire_settled:
  "promises w ! p = Some v \<Longrightarrow> promises (foldl (\<lambda>w tm. fire tm w) w tms) ! p = Some v"
  by (induction tms arbitrary: w) (simp_all add: promises_fire_settled)

lemma promises_advance_settled:
  "promises w ! p = Some v \<Longrightarrow> promises (advance t w) ! p = Some v"
  unfolding advance_def by (rule promises_foldl_fire_settled) simp

lemma command_parsed_no_record:
  assumes "promises w ! p = Some v" and "CommandHandler_get (commands w) ident command = None"
  shows "promises (command_parsed ident command p j w) ! p = Some v
         \<and> CommandHandler_get (commands (command_parsed ident command p j w)) ident command = None
         \<and> timers (command_parsed ident command p j w) = timers w
         \<and> next_timer (command_parsed ident command p j w) = next_timer w"
proof (cases j)
  case (JsonThrows msg)
  then show ?thesis
    using fail_settled [OF assms, of "failed msg"] by (simp add: command_parsed_def command_catch_def)
next
  case (JsonValue okv)
  then show ?thesis
    using fail_settled [OF assms, of "failed ''AioRpcError''"] assms
    by (cases okv) (simp_all add: command_parsed_def Let_def)
qed



lemma promises_settle_other:
  "q \<noteq> p \<Longrightarrow> promises (settle q v w) ! p = promises w ! p"
  by (simp add: settle_def)








text \<open>
  What the passing of time and the handling of batches keep: they add no promise, no
  timer and no record, and change no promise that is resolved.
\<close>

lemma keeps_refl: "keeps w w"
  by (simp add: keeps_def)

lemma keeps_trans: "keeps w w1 \<Longrightarrow> keeps w1 w2 \<Longrightarrow> keeps w w2"
  unfolding keeps_def by (intro conjI; (simp; fail | blast))

lemma keeps_same:
  "promises w' = promises w \<Longrightarrow> timers w' = timers w \<Longrightarrow> next_timer w' = next_timer w \<Longrightarrow>
   commands w' = commands w \<Longrightarrow> keeps w w'"
  by (simp add: keeps_def)

lemma keeps_emit: "keeps w (emit ident ev w)"
  by (rule keeps_same) (simp_all add: emit_def)

lemma keeps_emit_all: "keeps w (emit_all ident evs w)"
  unfolding emit_all_def
proof (induction evs arbitrary: w)
  case Nil
  then show ?case by (simp add: keeps_refl)
next
  case (Cons ev evs)
  show ?case
    using keeps_trans [OF keeps_emit [of w ident ev] Cons.IH [of "emit ident ev w"]] by simp
qed

lemma keeps_settle: "keeps w (settle p v w)"
  by (auto simp: keeps_def settle_def nth_list_update)

lemma keeps_clearTimeout: "keeps w (clearTimeout h w)"
  by (cases h) (auto simp: keeps_def clearTimeout_def)

lemma find_filter_None: "find P xs = None \<Longrightarrow> find P (filter Q xs) = None"
  by (simp add: find_None_iff)

lemma keeps_remove: "keeps w (w\<lparr>commands := CommandHandler_remove (commands w) r\<rparr>)"
  by (cases r) (auto simp: keeps_def CommandHandler_remove_def CommandHandler_get_def find_filter_None)

lemma keeps_remove_by_key: "keeps w (remove_by_key ident command w)"
  unfolding remove_by_key_def by (rule keeps_remove)

lemma keeps_resolve_command: "keeps w (resolve_command c log w)"
  unfolding resolve_command_def Let_def
  by (rule keeps_trans [OF keeps_settle keeps_trans [OF keeps_clearTimeout keeps_remove]])

lemma find_set_timestamp:
  "find (same_key i c) (set_timestamp r date cmds) = None
   \<longleftrightarrow> find (same_key i c) cmds = None"
  by (induction cmds) (auto simp: set_timestamp_def same_key_def)

lemma add_stamped:
  assumes "CommandHandler_get cmds ident cmd = Some r"
  shows "CommandHandler_add (set_timestamp r date cmds) (r\<lparr>timestamp := Some date\<rparr>)
         = set_timestamp r date cmds"
proof -
  have k: "same_key ident cmd r"
    using find_Some_holds [of "same_key ident cmd" cmds r] assms
    by (simp add: CommandHandler_get_def)
  then have "req_identifier r = ident" "req_command r = cmd"
    by (simp_all add: same_key_def)
  moreover have "find (same_key ident cmd) (set_timestamp r date cmds) \<noteq> None"
    using assms by (simp add: find_set_timestamp CommandHandler_get_def)
  ultimately show ?thesis
    by (simp add: CommandHandler_add_def CommandHandler_get_def)
qed

lemma keeps_command_executing: "keeps w (fst (command_executing rx ident date log w))"
proof (cases "re_CommandExecuting rx log")
  case None
  then show ?thesis by (simp add: command_executing_def keeps_refl)
next
  case (Some cmd)
  define w1 where "w1 = emit ident (ExecutingCommand cmd) w"
  have k1: "keeps w w1"
    unfolding w1_def by (rule keeps_emit)
  show ?thesis
  proof (cases "CommandHandler_get (commands w1) ident cmd")
    case None
    then show ?thesis
      using k1 by (simp add: command_executing_def Some w1_def [symmetric])
  next
    case (Some r)
    have "keeps w1 (w1\<lparr>commands := set_timestamp r date (commands w1)\<rparr>)"
      by (simp add: keeps_def CommandHandler_get_def find_set_timestamp)
    then have "keeps w (w1\<lparr>commands := set_timestamp r date (commands w1)\<rparr>)"
      by (rule keeps_trans [OF k1])
    then show ?thesis
      using k1 Some \<open>re_CommandExecuting rx log = Some cmd\<close>
      by (simp add: command_executing_def w1_def [symmetric] add_stamped [OF Some])
  qed
qed

lemma keeps_command_response_other:
  "keeps w (fst (command_response_other ident log (w, cur)))"
  by (auto simp: command_response_other_def keeps_refl keeps_resolve_command
      split: option.splits)

lemma keeps_command_response: "keeps w (fst (command_response ident date log (w, cur)))"
  using keeps_command_response_other [of w ident log cur]
  by (auto simp: command_response_def keeps_resolve_command split: option.splits)

lemma keeps_handle_log: "keeps w (fst (handle_log rx tbl ident date log (w, cur)))"
proof -
  define e where "e = command_executing rx ident date log (emit ident (Message log) w)"
  have k1: "keeps w (fst e)"
    unfolding e_def by (rule keeps_trans [OF keeps_emit keeps_command_executing])
  show ?thesis
  proof (cases "snd e")
    case (Some cmd)
    then have "command_executing rx ident date log (emit ident (Message log) w)
               = (fst e, Some cmd)"
      unfolding e_def by (cases "command_executing rx ident date log (emit ident (Message log) w)") simp
    then show ?thesis
      using k1 by (simp add: handle_log_def)
  next
    case None
    then have e: "e = (fst e, None)" by (cases e) simp
    have "handle_log rx tbl ident date log (w, cur)
          = (emit_all ident (decode rx tbl log)
               (fst (command_response ident date log (fst e, cur))),
             snd (command_response ident date log (fst e, cur)))"
      using e by (intro handle_log_not_stamping) (simp add: e_def)
    then show ?thesis
      using keeps_trans [OF k1 keeps_trans [OF keeps_command_response keeps_emit_all]]
      by simp
  qed
qed

lemma keeps_handle_data: "keeps (fst st) (fst (handle_data rx tbl ident st data))"
  using keeps_handle_log [of "fst st" rx tbl ident _ _ "snd st"]
  by (auto simp: handle_data_def keeps_refl Let_def split: option.splits)

lemma keeps_foldl_handle_data:
  "keeps (fst st) (fst (foldl (handle_data rx tbl ident) st ds))"
proof (induction ds arbitrary: st)
  case Nil
  then show ?case by (simp add: keeps_refl)
next
  case (Cons d ds)
  show ?case
    using keeps_trans [OF keeps_handle_data Cons.IH] by simp
qed

lemma keeps_handle: "keeps w (snd (handle rx tbl message server w))"
  using keeps_foldl_handle_data [of "(w, None)"]
  by (auto simp: handle_def Let_def update_def intro: keeps_same)

lemma keeps_fire: "keeps w (fire tm w)"
  by (cases "action tm")
     (simp add: fire_def keeps_trans [OF keeps_remove_by_key keeps_settle])

lemma keeps_foldl_fire: "keeps w (foldl (\<lambda>w tm. fire tm w) w tms)"
proof (induction tms arbitrary: w)
  case Nil
  then show ?case by (simp add: keeps_refl)
next
  case (Cons tm tms)
  show ?case
    using keeps_trans [OF keeps_fire Cons.IH] by simp
qed

lemma keeps_advance: "keeps w (advance t w)"
proof -
  have "keeps w (w\<lparr>clock := t, timers := filter (\<lambda>tm. t < due tm) (timers w)\<rparr>)"
    by (simp add: keeps_def)
  then show ?thesis
    unfolding advance_def by (rule keeps_trans [OF _ keeps_foldl_fire])
qed

lemma keeps_happen: "keeps w (happen rx tbl w h)"
  by (cases h) (simp_all add: happen_def keeps_advance keeps_handle)

lemma keeps_happen_all: "keeps w (happen_all rx tbl hs w)"
  unfolding happen_all_def
proof (induction hs arbitrary: w)
  case Nil
  then show ?case by (simp add: keeps_refl)
next
  case (Cons h hs)
  show ?case
    using keeps_trans [OF keeps_happen Cons.IH] by simp
qed

lemmas example_dispatch_defs = command_finish_def command_fetched_def command_parsed_def
  command_begin_def setTimeout_def set_timeout_def advance_def fire_def settle_def
  remove_by_key_def CommandHandler_get_def CommandHandler_add_def CommandHandler_remove_def
  same_key_def truthy_def get_def timeout_response_def Let_def


lemma uncorrelated_Tick:
  "uncorrelated rx tbl ident command p (Tick t # hs) w
   = uncorrelated rx tbl ident command p hs (advance t w)"
  by (simp add: happen_def)

lemma uncorrelated_Batch:
  "h = Batch server message \<Longrightarrow>
   uncorrelated rx tbl ident command p (h # hs) w
   = (command_untouched ident command p w (happen rx tbl w h)
      \<and> uncorrelated rx tbl ident command p hs (happen rx tbl w h))"
  by simp

lemmas example_happen_defs = happen_def handle_def example_echo_def
  example_status_lines_def example_hello_def example_live_server_def example_server_def
  example_echo_line_def example_status_batch_def

lemma example_echo_value:
  "happen example_patterns example_playerKillData (advance 250 example_dispatched) example_echo
   = example_stamped\<lparr>clock := 250\<rparr>"
  by (simp add: example_happen_defs advance_def example_stamped_def example_stamped_command_def
      example_dispatched_def example_world_def example_line_defs)

lemma example_status_lines_value:
  "happen example_patterns example_playerKillData example_dispatched example_status_lines
   = fst example_after_two_lines"
  by (simp add: example_happen_defs example_after_two_lines_value
      example_dispatched_def example_world_def example_line_defs)



lemma fail_any:
  assumes "p < length (promises w)"
  shows "promises (settle p u (remove_by_key ident command w)) ! p
         = (case promises w ! p of None \<Rightarrow> Some u | Some v \<Rightarrow> Some v)"
    and "CommandHandler_get (commands (settle p u (remove_by_key ident command w)))
           ident command = None"
    and "keeps w (settle p u (remove_by_key ident command w))"
proof -
  show "promises (settle p u (remove_by_key ident command w)) ! p
         = (case promises w ! p of None \<Rightarrow> Some u | Some v \<Rightarrow> Some v)"
    using assms by (cases "promises w ! p") (simp_all add: settle_def state_remove_by_key)
  show "CommandHandler_get (commands (settle p u (remove_by_key ident command w)))
           ident command = None"
    by (simp add: state_settle get_after_remove_by_key)
  show "keeps w (settle p u (remove_by_key ident command w))"
    by (rule keeps_trans [OF keeps_remove_by_key keeps_settle])
qed

lemma keeps_facts:
  assumes "keeps w w'"
  shows "length (promises w') = length (promises w)"
    and "promises w ! q = Some v \<Longrightarrow> promises w' ! q = Some v"
    and "set (timers w') \<subseteq> set (timers w)"
    and "next_timer w' = next_timer w"
    and "CommandHandler_get (commands w) i c = None \<Longrightarrow> CommandHandler_get (commands w') i c = None"
  using assms unfolding keeps_def by blast+

lemma happen_all_append:
  "happen_all rx tbl (hs @ hs') w = happen_all rx tbl hs' (happen_all rx tbl hs w)"
  by (simp add: happen_all_def)

lemma command_resumed_at_once:
  "command_resumed rx tbl ident command p outcome [] [] w
   = command_finish ident command p outcome w"
  by (simp add: command_resumed_def command_finish_def happen_all_def)

text \<open>
  A failing request, whatever happens at the two \<open>await\<close>s: the promise is failed if it
  was pending when the failure was detected and is as it was otherwise; the key is out
  of the registry; no timer has been added.
\<close>

lemma command_resumed_failed:
  assumes "p < length (promises w1)" and "request_failed outcome"
  shows "promises (command_resumed rx tbl ident command p outcome pre mid w1) ! p
         = (case promises (happen_all rx tbl (before_detection outcome pre mid) w1) ! p of
              None \<Rightarrow> Some (failed (failure_reason outcome))
            | Some v \<Rightarrow> Some v)"
    and "CommandHandler_get (commands (command_resumed rx tbl ident command p outcome pre mid w1))
           ident command = None"
    and "set (timers (command_resumed rx tbl ident command p outcome pre mid w1))
         \<subseteq> set (timers w1)"
    and "next_timer (command_resumed rx tbl ident command p outcome pre mid w1) = next_timer w1"
proof -
  define w2 where "w2 = happen_all rx tbl pre w1"
  have k2: "keeps w1 w2"
    unfolding w2_def by (rule keeps_happen_all)
  have p2: "p < length (promises w2)"
    using assms(1) keeps_facts(1) [OF k2] by simp
  let ?final = "command_resumed rx tbl ident command p outcome pre mid w1"
  let ?seen = "happen_all rx tbl (before_detection outcome pre mid) w1"
  have res: "promises ?final ! p
         = (case promises ?seen ! p of
              None \<Rightarrow> Some (failed (failure_reason outcome))
            | Some v \<Rightarrow> Some v)
       \<and> CommandHandler_get (commands ?final) ident command = None
       \<and> set (timers ?final) \<subseteq> set (timers w1)
       \<and> next_timer ?final = next_timer w1"
  proof (cases outcome)
    case (FetchThrows msg)
    have f: "?final = settle p (failed msg) (remove_by_key ident command w2)"
      by (simp add: command_resumed_def command_fetched_def command_catch_def FetchThrows w2_def)
    have s: "?seen = w2"
      by (simp add: before_detection_def FetchThrows w2_def)
    note a = fail_any [OF p2, of "failed msg" ident command]
    note k = keeps_facts [OF keeps_trans [OF k2 a(3)]]
    show ?thesis
      unfolding f s using a(1,2) k(3,4)
      by (simp add: failure_reason_def FetchThrows cong: option.case_cong)
  next
    case (FetchReturns r)
    show ?thesis
    proof (cases "resp_ok r")
      case False
      define w2' where "w2' = settle p (failed (http_reason r)) (remove_by_key ident command w2)"
      define w3 where "w3 = happen_all rx tbl mid w2'"
      note a = fail_any [OF p2, of "failed (http_reason r)" ident command, folded w2'_def]
      have k3: "keeps w2' w3"
        unfolding w3_def by (rule keeps_happen_all)
      obtain x where x: "promises w2' ! p = Some x"
        "x = (case promises w2 ! p of None \<Rightarrow> failed (http_reason r) | Some v \<Rightarrow> v)"
        using a(1) by (cases "promises w2 ! p") simp_all
      have p3: "promises w3 ! p = Some x"
        using keeps_facts(2) [OF k3 x(1)] .
      have g3: "CommandHandler_get (commands w3) ident command = None"
        using keeps_facts(5) [OF k3 a(2)] .
      have f: "?final = command_parsed ident command p (resp_json r) w3"
        using False
        by (simp add: command_resumed_def command_fetched_def FetchReturns w2_def w2'_def w3_def)
      have s: "?seen = w2"
        using False by (simp add: before_detection_def FetchReturns w2_def)
      note c = command_parsed_no_record [OF p3 g3, of "resp_json r"]
      note k = keeps_facts [OF keeps_trans [OF k2 keeps_trans [OF a(3) k3]]]
      show ?thesis
        unfolding f s using c k(3,4) x(2) False
        by (cases "promises w2 ! p") (simp_all add: failure_reason_def FetchReturns)
    next
      case True
      define w3 where "w3 = happen_all rx tbl mid w2"
      have k3: "keeps w2 w3"
        unfolding w3_def by (rule keeps_happen_all)
      have p3: "p < length (promises w3)"
        using p2 keeps_facts(1) [OF k3] by simp
      have f: "?final = command_parsed ident command p (resp_json r) w3"
        using True
        by (simp add: command_resumed_def command_fetched_def FetchReturns w2_def w3_def)
      have s: "?seen = w3"
        using True
        by (simp add: before_detection_def FetchReturns w2_def w3_def happen_all_append)
      show ?thesis
      proof (cases "resp_json r")
        case (JsonThrows msg)
        note a = fail_any [OF p3, of "failed msg" ident command]
        note k = keeps_facts [OF keeps_trans [OF k2 keeps_trans [OF k3 a(3)]]]
        show ?thesis
          unfolding f s using a(1,2) k(3,4) True
          by (simp add: command_parsed_def command_catch_def failure_reason_def FetchReturns
              JsonThrows cong: option.case_cong)
      next
        case (JsonValue okv)
        then have n: "\<not> okv"
          using assms(2) True by (simp add: request_failed_def FetchReturns)
        note a = fail_any [OF p3, of "failed ''AioRpcError''" ident command]
        note k = keeps_facts [OF keeps_trans [OF k2 keeps_trans [OF k3 a(3)]]]
        show ?thesis
          unfolding f s using a(1,2) k(3,4) True n
          by (simp add: command_parsed_def Let_def failure_reason_def FetchReturns JsonValue
              cong: option.case_cong)
      qed
    qed
  qed
  show "promises ?final ! p
         = (case promises ?seen ! p of
              None \<Rightarrow> Some (failed (failure_reason outcome))
            | Some v \<Rightarrow> Some v)"
    "CommandHandler_get (commands ?final) ident command = None"
    "set (timers ?final) \<subseteq> set (timers w1)"
    "next_timer ?final = next_timer w1"
    using res by simp_all
qed

text \<open>
  The block that acts on a failure, in whatever world it runs: at the return of the
  request for an exception or a status that is not 2xx, at the return of the body for
  a body that cannot be parsed or is not OK.
\<close>

lemma command_fetched_failed:
  assumes "p < length (promises v)" and "\<forall>r. outcome = FetchReturns r \<longrightarrow> \<not> resp_ok r"
  shows "promises (fst (command_fetched ident command p outcome v)) ! p
         = (case promises v ! p of
              None \<Rightarrow> Some (failed (failure_reason outcome))
            | Some x \<Rightarrow> Some x)
         \<and> CommandHandler_get (commands (fst (command_fetched ident command p outcome v)))
             ident command = None
         \<and> timers (fst (command_fetched ident command p outcome v)) = timers v"
proof (cases outcome)
  case (FetchThrows msg)
  then show ?thesis
    using fail_any(1,2) [OF assms(1), of "failed msg" ident command]
    by (simp add: command_fetched_def command_catch_def failure_reason_def state_settle
        state_remove_by_key cong: option.case_cong)
next
  case (FetchReturns r)
  then show ?thesis
    using assms(2) fail_any(1,2) [OF assms(1), of "failed (http_reason r)" ident command]
    by (simp add: command_fetched_def failure_reason_def state_settle state_remove_by_key
        cong: option.case_cong)
qed

lemma command_parsed_failed:
  assumes "p < length (promises v)" and "resp_ok r" and "request_failed (FetchReturns r)"
  shows "promises (command_parsed ident command p (resp_json r) v) ! p
         = (case promises v ! p of
              None \<Rightarrow> Some (failed (failure_reason (FetchReturns r)))
            | Some x \<Rightarrow> Some x)
         \<and> CommandHandler_get (commands (command_parsed ident command p (resp_json r) v))
             ident command = None
         \<and> timers (command_parsed ident command p (resp_json r) v) = timers v"
proof (cases "resp_json r")
  case (JsonThrows msg)
  then show ?thesis
    using fail_any(1,2) [OF assms(1), of "failed msg" ident command] assms(2)
    by (simp add: command_parsed_def command_catch_def failure_reason_def state_settle
        state_remove_by_key cong: option.case_cong)
next
  case (JsonValue okv)
  then have "\<not> okv"
    using assms(2,3) by (simp add: request_failed_def)
  then show ?thesis
    using fail_any(1,2) [OF assms(1), of "failed ''AioRpcError''" ident command] assms(2)
      JsonValue
    by (simp add: command_parsed_def Let_def failure_reason_def state_settle
        state_remove_by_key cong: option.case_cong)
qed

text \<open>
  Timers that do not resolve the promise \<open>p\<close> and batches that leave the command
  untouched leave the promise as it is.
\<close>

lemma promises_fire_other:
  "\<not> resolves_promise p tm \<Longrightarrow> promises (fire tm w) ! p = promises w ! p"
  by (cases "action tm")
     (simp add: resolves_promise_def fire_def promises_settle_other state_remove_by_key)

lemma promises_foldl_fire_other:
  "list_all (\<lambda>tm. \<not> resolves_promise p tm) tms \<Longrightarrow>
   promises (foldl (\<lambda>w tm. fire tm w) w tms) ! p = promises w ! p"
  by (induction tms arbitrary: w) (simp_all add: promises_fire_other)

lemma promises_advance_other:
  assumes "list_all (\<lambda>tm. \<not> resolves_promise p tm) (timers w)"
  shows "promises (advance t w) ! p = promises w ! p"
proof -
  have "list_all (\<lambda>tm. \<not> resolves_promise p tm)
          (sort_key due (filter (\<lambda>tm. due tm \<le> t) (timers w)))"
    using assms by (simp add: list_all_iff)
  from promises_foldl_fire_other
      [OF this, of "w\<lparr>clock := t, timers := filter (\<lambda>tm. t < due tm) (timers w)\<rparr>"]
  show ?thesis
    by (simp add: advance_def)
qed

lemma uncorrelated_promise:
  assumes "list_all (\<lambda>tm. \<not> resolves_promise p tm) (timers w)"
    and "uncorrelated rx tbl ident command p hs w"
  shows "promises (happen_all rx tbl hs w) ! p = promises w ! p"
  using assms
proof (induction hs arbitrary: w)
  case Nil
  then show ?case by (simp add: happen_all_def)
next
  case (Cons h hs)
  define w' where "w' = happen rx tbl w h"
  have k: "keeps w w'"
    unfolding w'_def by (rule keeps_happen)
  have t: "list_all (\<lambda>tm. \<not> resolves_promise p tm) (timers w')"
    using Cons.prems(1) keeps_facts(3) [OF k] by (auto simp: list_all_iff)
  have u: "uncorrelated rx tbl ident command p hs w'"
    using Cons.prems(2) by (simp add: w'_def)
  have s: "promises w' ! p = promises w ! p"
  proof (cases h)
    case (Tick t)
    then show ?thesis
      using promises_advance_other [OF Cons.prems(1)] by (simp add: w'_def happen_def)
  next
    case (Batch server message)
    then show ?thesis
      using Cons.prems(2) by (simp add: w'_def command_untouched_def)
  qed
  have "happen_all rx tbl (h # hs) w = happen_all rx tbl hs w'"
    by (simp add: happen_all_def w'_def)
  then show ?case
    using Cons.IH [OF t u] s by simp
qed

text \<open>
  Claim C3, as the code has it. A response-awaiting command is dispatched and its
  request fails: the transport throws, the status is not 2xx, the body cannot be
  parsed, or the body's \<open>ok\<close> is falsy. While the request and the body are awaited
  time passes and batches of console messages are handled, whatever they are
  (\<open>during_request\<close>, \<open>during_body\<close>); \<open>later\<close> is what happens after the call has
  ended. Then:

  \<^item> the promise of the call is resolved as failed, with the reason of the failure, if
    it was pending when the failure was detected; a promise that was resolved by then
    keeps its result, since a promise is resolved once;

  \<^item> when the call has ended no record of its key is in the registry, and none is
    there later; no timer has been added, the pending timers being among those from
    before the dispatch and the next handle the same; and the promise keeps its result
    whatever happens later;

  \<^item> the block that acts on the failure does this in whatever world \<open>v\<close> it runs
    (a world that has the promise \<open>p\<close>), that is whatever else has run since the
    dispatch: it leaves no record of the key,
    fails the promise \<open>p\<close> if it is pending, and adds no timer; it runs at the return
    of the request for an exception or a status that is not 2xx, and at the return of
    the body otherwise;

  \<^item> the promise is resolved as failed whenever no pending timer is for the promise
    of the dispatch and no batch before the detection has correlated the command.
\<close>

theorem failed_request_resolves_failed:
  assumes "command_begin token ident command w = Inr (p, w1)"
    and "request_failed outcome"
  shows "promises (command_resumed rx tbl ident command p outcome during_request during_body w1) ! p
           = (case promises (happen_all rx tbl (before_detection outcome during_request during_body) w1) ! p of
                None \<Rightarrow> Some \<lparr>ok = False, response = None, error = Some (failure_reason outcome)\<rparr>
              | Some v \<Rightarrow> Some v)
         \<and> CommandHandler_get
             (commands (command_resumed rx tbl ident command p outcome during_request during_body w1))
             ident command = None
         \<and> set (timers (command_resumed rx tbl ident command p outcome during_request during_body w1))
           \<subseteq> set (timers w)
         \<and> next_timer (command_resumed rx tbl ident command p outcome during_request during_body w1)
           = next_timer w
         \<and> promises (happen_all rx tbl later
              (command_resumed rx tbl ident command p outcome during_request during_body w1)) ! p
           = promises (command_resumed rx tbl ident command p outcome during_request during_body w1) ! p
         \<and> CommandHandler_get
             (commands (happen_all rx tbl later
                (command_resumed rx tbl ident command p outcome during_request during_body w1)))
             ident command = None
         \<and> set (timers (happen_all rx tbl later
                (command_resumed rx tbl ident command p outcome during_request during_body w1)))
           \<subseteq> set (timers w)
         \<and> (p < length (promises v) \<and> (\<forall>r. outcome = FetchReturns r \<longrightarrow> \<not> resp_ok r) \<longrightarrow>
              promises (fst (command_fetched ident command p outcome v)) ! p
                = (case promises v ! p of
                     None \<Rightarrow> Some \<lparr>ok = False, response = None,
                                    error = Some (failure_reason outcome)\<rparr>
                   | Some x \<Rightarrow> Some x)
              \<and> CommandHandler_get (commands (fst (command_fetched ident command p outcome v)))
                  ident command = None
              \<and> timers (fst (command_fetched ident command p outcome v)) = timers v)
         \<and> (p < length (promises v) \<and> outcome = FetchReturns r \<and> resp_ok r \<longrightarrow>
              promises (command_parsed ident command p (resp_json r) v) ! p
                = (case promises v ! p of
                     None \<Rightarrow> Some \<lparr>ok = False, response = None,
                                    error = Some (failure_reason outcome)\<rparr>
                   | Some x \<Rightarrow> Some x)
              \<and> CommandHandler_get (commands (command_parsed ident command p (resp_json r) v))
                  ident command = None
              \<and> timers (command_parsed ident command p (resp_json r) v) = timers v)
         \<and> (list_all (\<lambda>tm. \<not> resolves_promise (length (promises w)) tm) (timers w)
              \<and> uncorrelated rx tbl ident command p
                    (before_detection outcome during_request during_body) w1 \<longrightarrow>
              promises (command_resumed rx tbl ident command p outcome during_request during_body w1) ! p
                = Some \<lparr>ok = False, response = None, error = Some (failure_reason outcome)\<rparr>)"
proof -
  note b = command_begin_Inr [OF assms(1)]
  have p1: "p < length (promises w1)" "promises w1 ! p = None"
    by (simp_all add: b(1,2))
  let ?final = "command_resumed rx tbl ident command p outcome during_request during_body w1"
  let ?seen = "happen_all rx tbl (before_detection outcome during_request during_body) w1"
  note f = command_resumed_failed [OF p1(1) assms(2), of rx tbl ident command during_request
      during_body]
  have c1: "promises ?final ! p
           = (case promises ?seen ! p of
                None \<Rightarrow> Some \<lparr>ok = False, response = None, error = Some (failure_reason outcome)\<rparr>
              | Some v \<Rightarrow> Some v)"
    using f(1) by (simp add: failed_def cong: option.case_cong)
  obtain x where x: "promises ?final ! p = Some x"
    using c1 by (cases "promises ?seen ! p") simp_all
  have kl: "keeps ?final (happen_all rx tbl later ?final)"
    by (rule keeps_happen_all)
  note k = keeps_facts [OF kl]
  have c5: "promises (happen_all rx tbl later ?final) ! p = promises ?final ! p"
    using k(2) [OF x] x by simp
  have c6: "CommandHandler_get (commands (happen_all rx tbl later ?final)) ident command = None"
    using k(5) [OF f(2)] .
  have c7: "set (timers (happen_all rx tbl later ?final)) \<subseteq> set (timers w)"
    using k(3) f(3) by (simp add: b(3))
  have c8: "p < length (promises v) \<and> (\<forall>r. outcome = FetchReturns r \<longrightarrow> \<not> resp_ok r) \<longrightarrow>
              promises (fst (command_fetched ident command p outcome v)) ! p
                = (case promises v ! p of
                     None \<Rightarrow> Some \<lparr>ok = False, response = None,
                                    error = Some (failure_reason outcome)\<rparr>
                   | Some x \<Rightarrow> Some x)
              \<and> CommandHandler_get (commands (fst (command_fetched ident command p outcome v)))
                  ident command = None
              \<and> timers (fst (command_fetched ident command p outcome v)) = timers v"
  proof
    assume a: "p < length (promises v) \<and> (\<forall>r. outcome = FetchReturns r \<longrightarrow> \<not> resp_ok r)"
    show "promises (fst (command_fetched ident command p outcome v)) ! p
                = (case promises v ! p of
                     None \<Rightarrow> Some \<lparr>ok = False, response = None,
                                    error = Some (failure_reason outcome)\<rparr>
                   | Some x \<Rightarrow> Some x)
              \<and> CommandHandler_get (commands (fst (command_fetched ident command p outcome v)))
                  ident command = None
              \<and> timers (fst (command_fetched ident command p outcome v)) = timers v"
      using command_fetched_failed [OF a [THEN conjunct1] a [THEN conjunct2], of ident command]
      by (simp add: failed_def cong: option.case_cong)
  qed
  have c8b: "p < length (promises v) \<and> outcome = FetchReturns r \<and> resp_ok r \<longrightarrow>
              promises (command_parsed ident command p (resp_json r) v) ! p
                = (case promises v ! p of
                     None \<Rightarrow> Some \<lparr>ok = False, response = None,
                                    error = Some (failure_reason outcome)\<rparr>
                   | Some x \<Rightarrow> Some x)
              \<and> CommandHandler_get (commands (command_parsed ident command p (resp_json r) v))
                  ident command = None
              \<and> timers (command_parsed ident command p (resp_json r) v) = timers v"
  proof
    assume a: "p < length (promises v) \<and> outcome = FetchReturns r \<and> resp_ok r"
    then have o: "outcome = FetchReturns r" and k: "resp_ok r" and l: "p < length (promises v)"
      by simp_all
    have f: "request_failed (FetchReturns r)"
      using assms(2) by (simp add: o)
    show "promises (command_parsed ident command p (resp_json r) v) ! p
                = (case promises v ! p of
                     None \<Rightarrow> Some \<lparr>ok = False, response = None,
                                    error = Some (failure_reason outcome)\<rparr>
                   | Some x \<Rightarrow> Some x)
              \<and> CommandHandler_get (commands (command_parsed ident command p (resp_json r) v))
                  ident command = None
              \<and> timers (command_parsed ident command p (resp_json r) v) = timers v"
      using command_parsed_failed [OF l k f, of ident command]
      by (simp add: failed_def o cong: option.case_cong)
  qed
  have c9: "promises ?final ! p
            = Some \<lparr>ok = False, response = None, error = Some (failure_reason outcome)\<rparr>"
    if t: "list_all (\<lambda>tm. \<not> resolves_promise (length (promises w)) tm) (timers w)"
      and u: "uncorrelated rx tbl ident command p
                (before_detection outcome during_request during_body) w1"
  proof -
    have t1: "list_all (\<lambda>tm. \<not> resolves_promise p tm) (timers w1)"
      using t by (simp add: b(1,3))
    have "promises ?seen ! p = None"
      using uncorrelated_promise [OF t1 u] p1(2) by simp
    then show ?thesis
      using c1 by simp
  qed
  have c3: "set (timers ?final) \<subseteq> set (timers w)" "next_timer ?final = next_timer w"
    using f(3,4) by (simp_all add: b(3,4))
  have c9': "list_all (\<lambda>tm. \<not> resolves_promise (length (promises w)) tm) (timers w)
              \<and> uncorrelated rx tbl ident command p
                    (before_detection outcome during_request during_body) w1 \<longrightarrow>
              promises ?final ! p
                = Some \<lparr>ok = False, response = None, error = Some (failure_reason outcome)\<rparr>"
    using c9 by blast
  show ?thesis
    apply (intro conjI)
             apply (rule c1)
            apply (rule f(2))
           apply (rule c3(1))
          apply (rule c3(2))
         apply (rule c5)
        apply (rule c6)
       apply (rule c7)
      apply (rule c8)
     apply (rule c8b)
    apply (rule c9')
    done
qed

theorem failed_request_resolves_failed_witness:
  "command_begin (Some ''token'') ''eu1'' ''status'' example_world = Inr (0, example_dispatched)
   \<and> request_failed example_bad_gateway
   \<and> list_all (\<lambda>tm. \<not> resolves_promise (length (promises example_world)) tm)
       (timers example_world)
   \<and> uncorrelated example_patterns example_playerKillData ''eu1'' ''status'' 0
       (before_detection example_bad_gateway [Tick 250, example_echo] [example_hello])
       example_dispatched
   \<and> promises (command_resumed example_patterns example_playerKillData ''eu1'' ''status'' 0
        example_bad_gateway [Tick 250, example_echo] [example_hello] example_dispatched) ! 0
     = Some \<lparr>ok = False, response = None, error = Some ''HTTP 502 Bad Gateway''\<rparr>
   \<and> CommandHandler_get
       (commands (command_resumed example_patterns example_playerKillData ''eu1'' ''status'' 0
          example_bad_gateway [Tick 250, example_echo] [example_hello] example_dispatched))
       ''eu1'' ''status'' = None
   \<and> timers (command_resumed example_patterns example_playerKillData ''eu1'' ''status'' 0
        example_bad_gateway [Tick 250, example_echo] [example_hello] example_dispatched) = []
   \<and> promises (happen_all example_patterns example_playerKillData [Tick 5000]
        (command_resumed example_patterns example_playerKillData ''eu1'' ''status'' 0
           example_bad_gateway [Tick 250, example_echo] [example_hello] example_dispatched)) ! 0
     = Some \<lparr>ok = False, response = None, error = Some ''HTTP 502 Bad Gateway''\<rparr>
   \<and> 0 < length (promises example_dispatched)
   \<and> CommandHandler_get
       (commands (fst (command_fetched ''eu1'' ''status'' 0 example_bad_gateway
                         example_dispatched)))
       ''eu1'' ''status'' = None
   \<and> timers (fst (command_fetched ''eu1'' ''status'' 0 example_bad_gateway example_dispatched))
     = timers example_dispatched"
proof -
  have f: "request_failed example_bad_gateway"
    by (simp add: request_failed_def example_bad_gateway_def)
  have r: "failure_reason example_bad_gateway = ''HTTP 502 Bad Gateway''"
    by (simp add: failure_reason_def http_reason_def example_bad_gateway_def)
  have t: "list_all (\<lambda>tm. \<not> resolves_promise (length (promises example_world)) tm)
             (timers example_world)"
    by (simp add: example_world_def)
  have d: "before_detection example_bad_gateway [Tick 250, example_echo] [example_hello]
           = [Tick 250, example_echo]"
    by (simp add: before_detection_def example_bad_gateway_def)
  have u: "uncorrelated example_patterns example_playerKillData ''eu1'' ''status'' 0
              (before_detection example_bad_gateway [Tick 250, example_echo] [example_hello])
              example_dispatched"
    unfolding d
    by (simp add: uncorrelated_Tick uncorrelated_Batch [OF example_echo_def]
        example_echo_value command_untouched_def del: uncorrelated.simps(2))
       (simp add: advance_def example_dispatched_def example_stamped_def
        example_stamped_command_def example_world_def CommandHandler_get_def same_key_def)
  note c = failed_request_resolves_failed [OF example_dispatched_begin f,
      where rx = example_patterns and tbl = example_playerKillData
        and during_request = "[Tick 250, example_echo]" and during_body = "[example_hello]"
        and later = "[Tick 5000]" and v = example_dispatched
        and r = "\<lparr>resp_ok = False, resp_status = 502, resp_statusText = ''Bad Gateway'',
                   resp_json = JsonThrows ''Unexpected token''\<rparr>"]
  have c1: "promises (command_resumed example_patterns example_playerKillData ''eu1'' ''status'' 0
        example_bad_gateway [Tick 250, example_echo] [example_hello] example_dispatched) ! 0
     = Some \<lparr>ok = False, response = None, error = Some ''HTTP 502 Bad Gateway''\<rparr>"
    using c [THEN conjunct2, THEN conjunct2, THEN conjunct2, THEN conjunct2, THEN conjunct2,
        THEN conjunct2, THEN conjunct2, THEN conjunct2, THEN conjunct2, THEN mp,
        OF conjI [OF t u]]
    by (simp only: r)
  have c2: "CommandHandler_get
       (commands (command_resumed example_patterns example_playerKillData ''eu1'' ''status'' 0
          example_bad_gateway [Tick 250, example_echo] [example_hello] example_dispatched))
       ''eu1'' ''status'' = None"
    using c [THEN conjunct2, THEN conjunct1] .
  have c3: "timers (command_resumed example_patterns example_playerKillData ''eu1'' ''status'' 0
        example_bad_gateway [Tick 250, example_echo] [example_hello] example_dispatched) = []"
    using c [THEN conjunct2, THEN conjunct2, THEN conjunct1] by (simp add: example_world_def)
  have c5: "promises (happen_all example_patterns example_playerKillData [Tick 5000]
        (command_resumed example_patterns example_playerKillData ''eu1'' ''status'' 0
           example_bad_gateway [Tick 250, example_echo] [example_hello] example_dispatched)) ! 0
     = Some \<lparr>ok = False, response = None, error = Some ''HTTP 502 Bad Gateway''\<rparr>"
    using c [THEN conjunct2, THEN conjunct2, THEN conjunct2, THEN conjunct2, THEN conjunct1] c1
    by (simp only:)
  have l: "0 < length (promises example_dispatched)"
    by (simp add: example_dispatched_def)
  have e: "\<forall>r. example_bad_gateway = FetchReturns r \<longrightarrow> \<not> resp_ok r"
    by (auto simp: example_bad_gateway_def)
  note c8 = c [THEN conjunct2, THEN conjunct2, THEN conjunct2, THEN conjunct2, THEN conjunct2,
      THEN conjunct2, THEN conjunct2, THEN conjunct1, THEN mp, OF conjI [OF l e]]
  show ?thesis
    by (intro conjI)
       (rule example_dispatched_begin f t u c1 c2 c3 c5 l c8 [THEN conjunct2, THEN conjunct1]
          c8 [THEN conjunct2, THEN conjunct2])+
qed

text \<open>
  Claim C3 as stated fails when the console answers before the request is known to
  have failed. The command \<open>status\<close> is dispatched; while its request is awaited the
  batch with the echo and a line of the same timestamp arrives, and \<open>handle\<close> resolves
  the command with that line; then the request fails (a status 502, an exception of
  the transport, or a body that is not OK). The record is gone by then, and the call
  has resolved as a success with the line as its response, not as failed.
\<close>

theorem resolved_during_request_counterexample:
  "command_begin (Some ''token'') ''eu1'' ''status'' example_world = Inr (0, example_dispatched)
   \<and> request_failed example_bad_gateway
   \<and> request_failed (FetchThrows ''socket hang up'')
   \<and> request_failed (FetchReturns (example_ok_response\<lparr>resp_json := JsonValue False\<rparr>))
   \<and> promises (command_resumed example_patterns example_playerKillData ''eu1'' ''status'' 0
        example_bad_gateway [example_status_lines] [] example_dispatched) ! 0
     = Some \<lparr>ok = True, response = Some ''players: 3'', error = None\<rparr>
   \<and> promises (command_resumed example_patterns example_playerKillData ''eu1'' ''status'' 0
        (FetchThrows ''socket hang up'') [example_status_lines] [] example_dispatched) ! 0
     = Some \<lparr>ok = True, response = Some ''players: 3'', error = None\<rparr>
   \<and> promises (command_resumed example_patterns example_playerKillData ''eu1'' ''status'' 0
        (FetchReturns (example_ok_response\<lparr>resp_json := JsonValue False\<rparr>))
        [example_status_lines] [] example_dispatched) ! 0
     = Some \<lparr>ok = True, response = Some ''players: 3'', error = None\<rparr>
   \<and> promises (command_resumed example_patterns example_playerKillData ''eu1'' ''status'' 0
        example_bad_gateway [example_status_lines] [] example_dispatched) ! 0
     \<noteq> Some \<lparr>ok = False, response = None, error = Some (failure_reason example_bad_gateway)\<rparr>"
proof -
  have v: "happen_all example_patterns example_playerKillData [example_status_lines]
             example_dispatched
           = example_world\<lparr>promises := [Some \<lparr>ok = True, response = Some ''players: 3'',
                                                 error = None\<rparr>],
               commands := [],
               emitted := [(''eu1'', Message ''Executing console system command status''),
                           (''eu1'', ExecutingCommand ''status''),
                           (''eu1'', Message ''players: 3'')]\<rparr>"
    by (simp add: happen_all_def example_status_lines_value example_after_two_lines_value)
  have r: "request_failed example_bad_gateway"
    "request_failed (FetchThrows ''socket hang up'')"
    "request_failed (FetchReturns (example_ok_response\<lparr>resp_json := JsonValue False\<rparr>))"
    by (simp_all add: request_failed_def example_bad_gateway_def example_ok_response_def)
  have a: "promises (command_resumed example_patterns example_playerKillData ''eu1'' ''status'' 0
        example_bad_gateway [example_status_lines] [] example_dispatched) ! 0
     = Some \<lparr>ok = True, response = Some ''players: 3'', error = None\<rparr>"
    unfolding command_resumed_def v
    by (simp add: happen_all_def example_bad_gateway_def example_world_def example_dispatch_defs
        command_catch_def)
  have b: "promises (command_resumed example_patterns example_playerKillData ''eu1'' ''status'' 0
        (FetchThrows ''socket hang up'') [example_status_lines] [] example_dispatched) ! 0
     = Some \<lparr>ok = True, response = Some ''players: 3'', error = None\<rparr>"
    unfolding command_resumed_def v
    by (simp add: happen_all_def example_world_def example_dispatch_defs command_catch_def)
  have c: "promises (command_resumed example_patterns example_playerKillData ''eu1'' ''status'' 0
        (FetchReturns (example_ok_response\<lparr>resp_json := JsonValue False\<rparr>))
        [example_status_lines] [] example_dispatched) ! 0
     = Some \<lparr>ok = True, response = Some ''players: 3'', error = None\<rparr>"
    unfolding command_resumed_def v
    by (simp add: happen_all_def example_ok_response_def example_world_def
        example_dispatch_defs command_catch_def)
  show ?thesis
    using example_dispatched_begin r a b c by simp
qed

lemma uncorrelated_append:
  "uncorrelated rx tbl ident command p (hs @ hs') w
   = (uncorrelated rx tbl ident command p hs w
      \<and> uncorrelated rx tbl ident command p hs' (happen_all rx tbl hs w))"
  by (induction hs arbitrary: w) (simp_all add: happen_all_def)















end
